theory Spec2Isabelle
  imports Main
begin

section \<open>Python strings\<close>

text \<open>
  A Python \<^verbatim>\<open>str\<close> is a sequence of Unicode code points, so it is modelled as a list of
  natural numbers; \<open>py\<close> turns an ASCII literal into such a list.  The character classes
  below are the ones of CPython 3 (\<^verbatim>\<open>str.isspace\<close>, \<^verbatim>\<open>str.isdigit\<close>, \<^verbatim>\<open>str.upper\<close>,
  and the classes \<^verbatim>\<open>\s\<close>, \<^verbatim>\<open>\d\<close>, \<^verbatim>\<open>\w\<close> of the \<^verbatim>\<open>re\<close> module on \<^verbatim>\<open>str\<close> patterns).
  The white-space set is complete; digits, letters and case mapping are exact on
  U+0000..U+00FF and treat code points above U+00FF as caseless non-digits.
\<close>

type_synonym pystr = "nat list"

definition py :: "string \<Rightarrow> pystr" where
  "py s = map of_char s"

datatype py_error = ValueError | SystemExit | OtherError

definition isspace_cp :: "nat \<Rightarrow> bool" where
  "isspace_cp c \<longleftrightarrow>
     (9 \<le> c \<and> c \<le> 13) \<or> (28 \<le> c \<and> c \<le> 32) \<or> c = 0x85 \<or> c = 0xA0 \<or> c = 0x1680 \<or>
     (0x2000 \<le> c \<and> c \<le> 0x200A) \<or> c = 0x2028 \<or> c = 0x2029 \<or> c = 0x202F \<or>
     c = 0x205F \<or> c = 0x3000"

definition re_digit :: "nat \<Rightarrow> bool" where
  \<comment> \<open>the class \<^verbatim>\<open>\d\<close>\<close>
  "re_digit c \<longleftrightarrow> 48 \<le> c \<and> c \<le> 57"

definition isdigit_cp :: "nat \<Rightarrow> bool" where
  \<comment> \<open>\<^verbatim>\<open>str.isdigit\<close> also accepts the superscript digits U+00B2, U+00B3, U+00B9\<close>
  "isdigit_cp c \<longleftrightarrow> (48 \<le> c \<and> c \<le> 57) \<or> c = 0xB2 \<or> c = 0xB3 \<or> c = 0xB9"

definition str_isdigit :: "pystr \<Rightarrow> bool" where
  "str_isdigit s \<longleftrightarrow> s \<noteq> [] \<and> list_all isdigit_cp s"

definition upper_cp :: "nat \<Rightarrow> pystr" where
  "upper_cp c =
     (if 97 \<le> c \<and> c \<le> 122 then [c - 32]
      else if c = 0xB5 then [0x39C]
      else if c = 0xDF then [0x53, 0x53]
      else if 0xE0 \<le> c \<and> c \<le> 0xFE \<and> c \<noteq> 0xF7 then [c - 32]
      else if c = 0xFF then [0x178]
      else [c])"

definition lower_cp :: "nat \<Rightarrow> nat" where
  "lower_cp c =
     (if 65 \<le> c \<and> c \<le> 90 then c + 32
      else if 0xC0 \<le> c \<and> c \<le> 0xDE \<and> c \<noteq> 0xD7 then c + 32
      else c)"

definition str_upper :: "pystr \<Rightarrow> pystr" where
  "str_upper s = concat (map upper_cp s)"

definition str_strip :: "pystr \<Rightarrow> pystr" where
  \<comment> \<open>\<^verbatim>\<open>s.strip()\<close>\<close>
  "str_strip s = rev (dropWhile isspace_cp (rev (dropWhile isspace_cp s)))"

text \<open>\<^verbatim>\<open>int(d)\<close> on a one-character string: only decimal digits convert, the
  superscript digits raise \<^verbatim>\<open>ValueError\<close>.\<close>

definition py_int_digit :: "nat \<Rightarrow> py_error + nat" where
  "py_int_digit c = (if 48 \<le> c \<and> c \<le> 57 then Inr (c - 48) else Inl ValueError)"

fun int_each :: "pystr \<Rightarrow> py_error + nat list" where
  "int_each [] = Inr []"
| "int_each (c # cs) =
     (case py_int_digit c of
        Inl e \<Rightarrow> Inl e
      | Inr d \<Rightarrow> (case int_each cs of Inl e \<Rightarrow> Inl e | Inr ds \<Rightarrow> Inr (d # ds)))"

text \<open>\<^verbatim>\<open>str(n)\<close> for a non-negative integer.\<close>

fun str_nat :: "nat \<Rightarrow> pystr" where
  "str_nat n = (if n < 10 then [48 + n] else str_nat (n div 10) @ [48 + n mod 10])"

declare str_nat.simps [simp del]

section \<open>RUT validator (geocoding\_utils.py)\<close>

definition factors :: "nat list" where
  "factors = [2, 3, 4, 5, 6, 7]"

definition weighted_total :: "nat list \<Rightarrow> nat" where
  \<comment> \<open>\<^verbatim>\<open>sum(d * factors[i % len(factors)] for i, d in enumerate(reversed_digits))\<close>\<close>
  "weighted_total ds =
     sum_list (map (\<lambda>(i, d). d * factors ! (i mod length factors)) (enumerate 0 ds))"

definition dv_of_total :: "nat \<Rightarrow> pystr" where
  "dv_of_total s =
     (let remainder = 11 - s mod 11 in
      if remainder = 11 then py ''0''
      else if remainder = 10 then py ''K''
      else str_nat remainder)"

definition calculate_dv :: "pystr \<Rightarrow> py_error + pystr" where
  "calculate_dv rut =
     (if \<not> str_isdigit rut then Inr []
      else (case int_each (rev rut) of
              Inl e \<Rightarrow> Inl e
            | Inr reversed_digits \<Rightarrow> Inr (dv_of_total (weighted_total reversed_digits))))"

definition validate_rut_dv :: "pystr \<Rightarrow> pystr \<Rightarrow> py_error + (pystr \<times> pystr \<times> bool)" where
  "validate_rut_dv rut dv =
     (if rut = [] then Inr ([], [], False)
      else let rut_clean = filter re_digit rut in
        if rut_clean = [] then Inr ([], [], False)
        else (case calculate_dv rut_clean of
                Inl e \<Rightarrow> Inl e
              | Inr dv_calculated \<Rightarrow>
                  let dv_clean = (if dv \<noteq> [] then str_strip (str_upper dv) else [])
                  in Inr (rut_clean, dv_calculated, dv_clean = dv_calculated)))"

section \<open>Text normalizer (process\_itau\_auto\_v2.py)\<close>

text \<open>\<^verbatim>\<open>s.replace(old, new)\<close>: every non-overlapping occurrence, scanning from the left; the
  counter skips the rest of an occurrence already replaced.\<close>

fun replace_from :: "pystr \<Rightarrow> pystr \<Rightarrow> nat \<Rightarrow> pystr \<Rightarrow> pystr" where
  "replace_from old new k [] = []"
| "replace_from old new (Suc k) (c # cs) = replace_from old new k cs"
| "replace_from old new 0 (c # cs) =
     (if take (length old) (c # cs) = old
      then new @ replace_from old new (length old - 1) cs
      else c # replace_from old new 0 cs)"

definition str_replace :: "pystr \<Rightarrow> pystr \<Rightarrow> pystr \<Rightarrow> pystr" where
  "str_replace old new s =
     (if old = [] then new @ concat (map (\<lambda>c. c # new) s) else replace_from old new 0 s)"

text \<open>\<^verbatim>\<open>re.sub(r"\s+", " ", s)\<close>: every maximal run of white space becomes one space;
  the flag says that the previous character belonged to a run.\<close>

fun collapse_ws :: "bool \<Rightarrow> pystr \<Rightarrow> pystr" where
  "collapse_ws inws [] = []"
| "collapse_ws inws (c # cs) =
     (if isspace_cp c then (if inws then collapse_ws True cs else 32 # collapse_ws True cs)
      else c # collapse_ws False cs)"

definition re_sub_ws :: "pystr \<Rightarrow> pystr" where
  "re_sub_ws s = collapse_ws False s"

text \<open>
  The two libraries \<^verbatim>\<open>fix_text\<close> calls are not part of the repository and are parameters
  of the model: \<open>ftfy_fix_text\<close> is \<open>None\<close> when the optional module \<^verbatim>\<open>ftfy\<close> could not be
  imported, and otherwise a function that returns \<open>None\<close> where \<^verbatim>\<open>ftfy.fix_text\<close> raises;
  \<open>normalize_NFC\<close> is \<^verbatim>\<open>unicodedata.normalize("NFC", _)\<close>.
\<close>

record text_libs =
  ftfy_fix_text :: "(pystr \<Rightarrow> pystr option) option"
  normalize_NFC :: "pystr \<Rightarrow> pystr"

definition nfc_fallback :: "text_libs \<Rightarrow> pystr \<Rightarrow> pystr" where
  "nfc_fallback L s = str_replace [0xFFFD] [] (normalize_NFC L s)"

fun fix_text :: "text_libs \<Rightarrow> pystr option \<Rightarrow> pystr" where
  "fix_text L None = []"
| "fix_text L (Some s) =
     (case ftfy_fix_text L of
        Some f \<Rightarrow> (case f s of Some r \<Rightarrow> r | None \<Rightarrow> nfc_fallback L s)
      | None \<Rightarrow> nfc_fallback L s)"

fun clean_text_value :: "text_libs \<Rightarrow> pystr option \<Rightarrow> pystr" where
  "clean_text_value L None = []"
| "clean_text_value L (Some s0) =
     (let s = fix_text L (Some s0);
          s = str_replace [0x200B] [] s;
          s = str_replace [0x201D] [] (str_replace [0x201C] [] (str_replace [34] [] s));
          s = str_strip (re_sub_ws s)
      in s)"

text \<open>
  A concrete instance of the libraries for evaluation: \<^verbatim>\<open>ftfy\<close> absent, and NFC on strings
  made of ASCII characters, U+0301 (combining acute accent), U+200B, U+201C, U+201D, U+FFFD
  and the precomposed letters of the table.  On such strings NFC only composes a base
  letter with a combining acute accent that follows it directly.
\<close>

definition acute_composites :: "(nat \<times> nat) list" where
  "acute_composites =
     [(65, 0xC1), (67, 0x106), (69, 0xC9), (71, 0x1F4), (73, 0xCD), (75, 0x1E30), (76, 0x139),
      (77, 0x1E3E), (78, 0x143), (79, 0xD3), (80, 0x1E54), (82, 0x154), (83, 0x15A), (85, 0xDA),
      (87, 0x1E82), (89, 0xDD), (90, 0x179), (97, 0xE1), (99, 0x107), (101, 0xE9), (103, 0x1F5),
      (105, 0xED), (107, 0x1E31), (108, 0x13A), (109, 0x1E3F), (110, 0x144), (111, 0xF3),
      (112, 0x1E55), (114, 0x155), (115, 0x15B), (117, 0xFA), (119, 0x1E83), (121, 0xFD),
      (122, 0x17A)]"

fun nfc_acute :: "pystr \<Rightarrow> pystr" where
  "nfc_acute (b # m # cs) =
     (if m = 0x301
      then (case map_of acute_composites b of
              Some c \<Rightarrow> c # nfc_acute cs
            | None \<Rightarrow> b # nfc_acute (m # cs))
      else b # nfc_acute (m # cs))"
| "nfc_acute cs = cs"

definition fallback_libs :: text_libs where
  "fallback_libs = \<lparr>ftfy_fix_text = None, normalize_NFC = nfc_acute\<rparr>"




section \<open>Regular expressions (the backtracking matcher of \<^verbatim>\<open>re\<close>)\<close>

text \<open>
  A pattern is a value of \<open>rx\<close>: a character class, the empty pattern, sequence, ordered
  alternative, greedy repetition \<^verbatim>\<open>{lo,hi}\<close> (\<open>None\<close> for no upper bound), a numbered capturing
  group and the word boundary \<^verbatim>\<open>\b\<close>.  \<open>rx_run\<close> returns every way the pattern matches at
  the current position, in the order in which the backtracking matcher of \<^verbatim>\<open>re\<close> tries them,
  so the head of the list is the match \<^verbatim>\<open>re\<close> reports.  A match state holds the position,
  the character before it (for \<^verbatim>\<open>\b\<close>), the rest of the text and the spans of the groups
  closed so far, the latest first.  A repetition only continues after an iteration that
  consumed a character; the patterns of the repository repeat character classes only.
\<close>

definition re_word :: "nat \<Rightarrow> bool" where
  "re_word c \<longleftrightarrow>
     (48 \<le> c \<and> c \<le> 57) \<or> (65 \<le> c \<and> c \<le> 90) \<or> c = 95 \<or> (97 \<le> c \<and> c \<le> 122) \<or>
     c = 0xAA \<or> c = 0xB2 \<or> c = 0xB3 \<or> c = 0xB5 \<or> c = 0xB9 \<or> c = 0xBA \<or>
     (0xBC \<le> c \<and> c \<le> 0xBE) \<or> (0xC0 \<le> c \<and> c \<le> 0xD6) \<or> (0xD8 \<le> c \<and> c \<le> 0xF6) \<or>
     (0xF8 \<le> c \<and> c \<le> 0xFF)"

datatype rx =
    Cls "nat \<Rightarrow> bool"
  | Eps
  | Seq rx rx
  | Alt rx rx
  | Rep nat "nat option" rx
  | Grp nat rx
  | WordB

record mstate =
  m_pos :: nat
  m_prev :: "nat option"
  m_rest :: pystr
  m_caps :: "(nat \<times> nat \<times> nat) list"

fun rep_iter :: "(mstate \<Rightarrow> mstate list) \<Rightarrow> nat \<Rightarrow> nat \<Rightarrow> nat option \<Rightarrow> mstate \<Rightarrow> mstate list" where
  "rep_iter f 0 lo hi st = (if lo = 0 then [st] else [])"
| "rep_iter f (Suc fuel) lo hi st =
     (if hi = Some 0 then []
      else concat (map (rep_iter f fuel (lo - 1) (map_option (\<lambda>h. h - 1) hi))
                     (filter (\<lambda>st'. m_pos st < m_pos st') (f st))))
     @ (if lo = 0 then [st] else [])"

definition word_at :: "nat option \<Rightarrow> bool" where
  "word_at c = (case c of None \<Rightarrow> False | Some x \<Rightarrow> re_word x)"

definition next_cp :: "pystr \<Rightarrow> nat option" where
  "next_cp s = (case s of [] \<Rightarrow> None | c # _ \<Rightarrow> Some c)"

fun rx_run :: "rx \<Rightarrow> mstate \<Rightarrow> mstate list" where
  "rx_run (Cls P) st =
     (case m_rest st of
        [] \<Rightarrow> []
      | c # cs \<Rightarrow> if P c then [st\<lparr>m_pos := Suc (m_pos st), m_prev := Some c, m_rest := cs\<rparr>] else [])"
| "rx_run Eps st = [st]"
| "rx_run (Seq a b) st = concat (map (rx_run b) (rx_run a st))"
| "rx_run (Alt a b) st = rx_run a st @ rx_run b st"
| "rx_run (Rep lo hi r) st = rep_iter (rx_run r) (length (m_rest st)) lo hi st"
| "rx_run (Grp n r) st =
     map (\<lambda>st'. st'\<lparr>m_caps := (n, m_pos st, m_pos st') # m_caps st'\<rparr>) (rx_run r st)"
| "rx_run WordB st =
     (if word_at (m_prev st) \<noteq> word_at (next_cp (m_rest st)) then [st] else [])"

definition m_init :: "nat \<Rightarrow> nat option \<Rightarrow> pystr \<Rightarrow> mstate" where
  "m_init pos prev rest = \<lparr>m_pos = pos, m_prev = prev, m_rest = rest, m_caps = []\<rparr>"

text \<open>\<^verbatim>\<open>re.search\<close>: the first match at the leftmost position that has one, as (start, final state).\<close>

fun search_from :: "rx \<Rightarrow> nat \<Rightarrow> nat option \<Rightarrow> pystr \<Rightarrow> (nat \<times> mstate) option" where
  "search_from r pos prev [] =
     (case rx_run r (m_init pos prev []) of [] \<Rightarrow> None | m # _ \<Rightarrow> Some (pos, m))"
| "search_from r pos prev (c # cs) =
     (case rx_run r (m_init pos prev (c # cs)) of
        [] \<Rightarrow> search_from r (Suc pos) (Some c) cs
      | m # _ \<Rightarrow> Some (pos, m))"

definition re_search :: "rx \<Rightarrow> pystr \<Rightarrow> (nat \<times> mstate) option" where
  "re_search r s = search_from r 0 None s"

definition re_found :: "rx \<Rightarrow> pystr \<Rightarrow> bool" where
  "re_found r s \<longleftrightarrow> re_search r s \<noteq> None"

text \<open>\<^verbatim>\<open>re.finditer\<close>: successive non-overlapping matches; after a match the scan resumes
  at its end (the counter skips the characters the match consumed).\<close>

fun iter_from :: "rx \<Rightarrow> nat \<Rightarrow> nat \<Rightarrow> nat option \<Rightarrow> pystr \<Rightarrow> (nat \<times> mstate) list" where
  "iter_from r k pos prev [] =
     (if k = 0 then (case rx_run r (m_init pos prev []) of [] \<Rightarrow> [] | m # _ \<Rightarrow> [(pos, m)]) else [])"
| "iter_from r (Suc k) pos prev (c # cs) = iter_from r k (Suc pos) (Some c) cs"
| "iter_from r 0 pos prev (c # cs) =
     (case rx_run r (m_init pos prev (c # cs)) of
        [] \<Rightarrow> iter_from r 0 (Suc pos) (Some c) cs
      | m # _ \<Rightarrow> (pos, m) # iter_from r (m_pos m - pos - 1) (Suc pos) (Some c) cs)"

definition re_finditer :: "rx \<Rightarrow> pystr \<Rightarrow> (nat \<times> mstate) list" where
  "re_finditer r s = iter_from r 0 0 None s"

definition m_span :: "mstate \<Rightarrow> nat \<Rightarrow> (nat \<times> nat) option" where
  "m_span m n = map_of (m_caps m) n"

definition slice :: "pystr \<Rightarrow> nat \<Rightarrow> nat \<Rightarrow> pystr" where
  \<comment> \<open>\<^verbatim>\<open>s[i:j]\<close> for non-negative bounds\<close>
  "slice s i j = take (j - i) (drop i s)"

text \<open>Pattern constructors: a literal character, a literal under \<^verbatim>\<open>re.IGNORECASE\<close>, classes.\<close>

definition ch :: "nat \<Rightarrow> rx" where
  "ch c = Cls (\<lambda>x. x = c)"

definition ci :: "nat \<Rightarrow> rx" where
  "ci c = Cls (\<lambda>x. lower_cp x = lower_cp c)"

definition one_of :: "pystr \<Rightarrow> rx" where
  "one_of cs = Cls (\<lambda>x. x \<in> set cs)"

fun seqs :: "rx list \<Rightarrow> rx" where
  "seqs [] = Eps"
| "seqs [r] = r"
| "seqs (r # rs) = Seq r (seqs rs)"

fun alts :: "rx list \<Rightarrow> rx" where
  "alts [] = Cls (\<lambda>x. False)"
| "alts [r] = r"
| "alts (r # rs) = Alt r (alts rs)"

definition lit :: "pystr \<Rightarrow> rx" where
  "lit s = seqs (map ch s)"

definition liti :: "pystr \<Rightarrow> rx" where
  "liti s = seqs (map ci s)"

definition star :: "rx \<Rightarrow> rx" where "star r = Rep 0 None r"
definition plus :: "rx \<Rightarrow> rx" where "plus r = Rep 1 None r"
definition opt :: "rx \<Rightarrow> rx" where "opt r = Rep 0 (Some 1) r"

definition ws :: rx where "ws = Cls isspace_cp"
definition dg :: rx where "dg = Cls re_digit"

section \<open>RUT candidates (process\_itau\_unified\_v1.py)\<close>

definition colon_ws :: rx where
  \<comment> \<open>\<^verbatim>\<open>[:\s]\<close>\<close>
  "colon_ws = Cls (\<lambda>x. x = 58 \<or> isspace_cp x)"

definition num_chars :: rx where
  \<comment> \<open>\<^verbatim>\<open>[\d\.\,]\<close>\<close>
  "num_chars = Cls (\<lambda>x. re_digit x \<or> x = 46 \<or> x = 44)"

definition dash :: rx where
  \<comment> \<open>hyphen, en dash U+2013 or em dash U+2014\<close>
  "dash = one_of [45, 0x2013, 0x2014]"

definition dash_ws :: rx where
  "dash_ws = Cls (\<lambda>x. x = 45 \<or> isspace_cp x \<or> x = 0x2013 \<or> x = 0x2014)"

definition dv_char :: rx where
  \<comment> \<open>\<^verbatim>\<open>[0-9Kk]\<close>\<close>
  "dv_char = Cls (\<lambda>x. (48 \<le> x \<and> x \<le> 57) \<or> x = 75 \<or> x = 107)"

definition d09 :: rx where
  "d09 = Cls (\<lambda>x. 48 \<le> x \<and> x \<le> 57)"

definition rut_groups :: rx where
  \<comment> \<open>\<^verbatim>\<open>([\d\.\,]{6,})\s*[dash]?\s*([0-9Kk])\<close>\<close>
  "rut_groups = seqs [Grp 1 (Rep 6 None num_chars), star ws, opt dash, star ws, Grp 2 dv_char]"

definition n_mark :: "pystr \<Rightarrow> rx" where
  \<comment> \<open>\<^verbatim>\<open>N[..]?\s*[:\s]+\<close> followed by the two groups\<close>
  "n_mark marks = seqs [ci 78, opt (one_of marks), star ws, plus colon_ws, rut_groups]"

definition labelled_patterns :: "(rx \<times> int) list" where
  "labelled_patterns =
    [(seqs [ci 67, ch 46, ci 76, one_of [47, 92], liti (py ''RUT''), plus ws, n_mark [42]], 20),
     (seqs [ci 67, ch 46, ci 76, star ws, ch 47, star ws, liti (py ''RUT''), plus ws, n_mark [42]], 19),
     (seqs [ci 67, ch 46, ci 73, one_of [47, 92], liti (py ''RUT''), plus ws,
            n_mark [0xB0, 0xBA, 42]], 18),
     (seqs [ci 67, ch 46, ci 73, star ws, ch 47, star ws, liti (py ''RUT''), plus ws,
            n_mark [0xB0, 0xBA, 42]], 17),
     (seqs [ci 67, ch 46, ci 73, star ws, ch 47, star ws, liti (py ''RUT''), star ws,
            plus colon_ws, rut_groups], 16),
     (seqs [ci 67, star ws, ch 46, star ws, ci 73, star ws, one_of [47, 92], star ws,
            liti (py ''RUT''), plus ws, n_mark [0xB0, 0xBA, 42]], 15),
     (seqs [ci 67, Cls (\<lambda>x. lower_cp x = 101 \<or> lower_cp x = 0xE9), liti (py ''dula''), plus ws,
            liti (py ''de''), plus ws, liti (py ''Identidad''), star ws, n_mark [0xB0, 42]], 12),
     (seqs [alts [liti (py ''C.I./RUT''), liti (py ''C.L/RUT''), liti (py ''RUT'')],
            Rep 0 (Some 10) (Cls (\<lambda>x. \<not> (x = 58 \<or> re_digit x))), star colon_ws, rut_groups], 10)]"

definition generic_dotted :: rx where
  \<comment> \<open>\<^verbatim>\<open>([0-9]{1,3}(?:\.[0-9]{3}){1,2})\s*[dash\s]*([0-9Kk])\<close>\<close>
  "generic_dotted =
     seqs [Grp 1 (Seq (Rep 1 (Some 3) d09) (Rep 1 (Some 2) (Seq (ch 46) (Rep 3 (Some 3) d09)))),
           star ws, star dash_ws, Grp 2 dv_char]"

definition generic_plain :: rx where
  \<comment> \<open>\<^verbatim>\<open>\b(\d{7,8})\s*[dash\s]*([0-9Kk])\<close>\<close>
  "generic_plain = seqs [WordB, Grp 1 (Rep 7 (Some 8) dg), star ws, star dash_ws, Grp 2 dv_char]"

definition operacion_producto :: rx where
  \<comment> \<open>\<^verbatim>\<open>Operaci[o,U+00F3]n|Producto\<close> under IGNORECASE\<close>
  "operacion_producto =
     Alt (seqs [liti (py ''Operaci''), Cls (\<lambda>x. lower_cp x = 111 \<or> lower_cp x = 0xF3), ci 110])
         (liti (py ''Producto''))"

type_synonym rut_cand = "nat \<times> pystr \<times> pystr \<times> pystr \<times> int"

definition group_text :: "pystr \<Rightarrow> mstate \<Rightarrow> nat \<Rightarrow> pystr" where
  "group_text text m n = (case m_span m n of None \<Rightarrow> [] | Some (i, j) \<Rightarrow> slice text i j)"

definition group_start :: "mstate \<Rightarrow> nat \<Rightarrow> nat" where
  "group_start m n = (case m_span m n of None \<Rightarrow> 0 | Some (i, j) \<Rightarrow> i)"

definition context_of :: "pystr \<Rightarrow> nat \<Rightarrow> pystr" where
  \<comment> \<open>\<^verbatim>\<open>text[max(0,start-80):start+120]\<close>\<close>
  "context_of text start = slice text (start - 80) (start + 120)"

definition labelled_cand :: "pystr \<Rightarrow> int \<Rightarrow> nat \<times> mstate \<Rightarrow> rut_cand" where
  "labelled_cand text base sm =
     (let m = snd sm; start = group_start m 1 in
      (start, filter re_digit (group_text text m 1), str_upper (group_text text m 2),
       context_of text start, base))"

text \<open>The two loops over the generic patterns.  The second one takes \<^verbatim>\<open>m.group(1)\<close> as it
  is; that group holds digits only, so removing the non-digits leaves it unchanged.\<close>

definition generic_cands :: "pystr \<Rightarrow> rx \<Rightarrow> int \<Rightarrow> rut_cand list" where
  "generic_cands text pat base =
     concat (map (\<lambda>sm.
        let m = snd sm; start = group_start m 1; ctx = context_of text start in
        if re_found operacion_producto ctx then []
        else [(start, filter re_digit (group_text text m 1), str_upper (group_text text m 2), ctx, base)])
       (re_finditer pat text))"

definition find_all_ruts :: "pystr \<Rightarrow> rut_cand list" where
  "find_all_ruts text =
     concat (map (\<lambda>(pat, base). map (labelled_cand text base) (re_finditer pat text))
               labelled_patterns)
     @ generic_cands text generic_dotted 3
     @ generic_cands text generic_plain 2"

definition sus_pat :: rx where
  "sus_pat =
     Grp 1 (alts [seqs [liti (py ''Nombre''), plus ws, ci 121, plus ws, liti (py ''Apellidos''), plus ws,
                        liti (py ''del''), plus ws, liti (py ''deudor'')],
                  seqs [liti (py ''Suscriptor''),
                        opt (seqs [plus ws, ci 111, plus ws, liti (py ''Deudor'')])],
                  liti (py ''Deudor''),
                  liti (py ''Cliente/Deudor'')])"

definition banco_pat :: rx where
  \<comment> \<open>\<^verbatim>\<open>\bBanco\b|\bIta[u,U+00FA]\b|Representado por\<close> under IGNORECASE\<close>
  "banco_pat =
     alts [seqs [WordB, liti (py ''Banco''), WordB],
           seqs [WordB, liti (py ''Ita''), Cls (\<lambda>x. lower_cp x = 117 \<or> lower_cp x = 0xFA), WordB],
           liti (py ''Representado por'')]"

definition cl_rut_pat :: rx where
  \<comment> \<open>\<^verbatim>\<open>C\.L[\/\\]RUT\s+N\*?\s*:\<close>\<close>
  "cl_rut_pat = seqs [ci 67, ch 46, ci 76, one_of [47, 92], liti (py ''RUT''), plus ws, ci 78,
                      opt (ch 42), star ws, ch 58]"

definition ci_rut_pat :: rx where
  \<comment> \<open>\<^verbatim>\<open>C\.I[\/\\]RUT\s+N[U+00B0,U+00BA]\<close>\<close>
  "ci_rut_pat = seqs [ci 67, ch 46, ci 73, one_of [47, 92], liti (py ''RUT''), plus ws, ci 78,
                      one_of [0xB0, 0xBA]]"

fun str_contains :: "pystr \<Rightarrow> pystr \<Rightarrow> bool" where
  \<comment> \<open>\<^verbatim>\<open>sub in s\<close>\<close>
  "str_contains sub [] = (sub = [])"
| "str_contains sub (c # cs) = (take (length sub) (c # cs) = sub \<or> str_contains sub cs)"

definition cedula_de_identidad :: pystr where
  "cedula_de_identidad = [67, 0xE9] @ py ''dula de Identidad''"

definition rut_score :: "int option \<Rightarrow> pystr \<Rightarrow> nat \<Rightarrow> pystr \<Rightarrow> pystr \<Rightarrow> int \<Rightarrow> int" where
  \<comment> \<open>the score the loop body of \<^verbatim>\<open>choose_rut_for_doc\<close> gives one candidate\<close>
  "rut_score sus_pos doc_type pos rut ctx base =
     (let score = base;
          score = (if re_found banco_pat ctx then score - 50 else score);
          score =
            (if doc_type = py ''PP'' then
               (let score = (if base \<ge> 15 then score + 25 else score);
                    score = (if re_found cl_rut_pat ctx then score + 30 else score);
                    score = (case sus_pos of
                               None \<Rightarrow> score
                             | Some sp \<Rightarrow> score + max 0 (300 - \<bar>int pos - sp\<bar>) div 10);
                    score = (if re_found ci_rut_pat ctx then score + 20 else score)
                in score)
             else (if str_contains cedula_de_identidad ctx then score + 10 else score));
          score = (if 7 \<le> length rut \<and> length rut \<le> 8 then score + 2 else score)
      in score)"

fun choose_loop ::
  "int option \<Rightarrow> pystr \<Rightarrow> rut_cand list \<Rightarrow> (pystr \<times> pystr) option \<times> int
     \<Rightarrow> (pystr \<times> pystr) option \<times> int" where
  "choose_loop sus_pos doc_type [] st = st"
| "choose_loop sus_pos doc_type ((pos, rut, dv, ctx, base) # rest) (best, best_score) =
     (if rut = py ''97023000'' \<and> dv = py ''9''
      then choose_loop sus_pos doc_type rest (best, best_score)
      else let score = rut_score sus_pos doc_type pos rut ctx base in
        if score > best_score
        then choose_loop sus_pos doc_type rest (Some (rut, dv), score)
        else choose_loop sus_pos doc_type rest (best, best_score))"

definition sus_position :: "pystr \<Rightarrow> int option" where
  \<comment> \<open>\<^verbatim>\<open>sus.start() if sus else None\<close>\<close>
  "sus_position text = map_option (\<lambda>sm. int (fst sm)) (re_search sus_pat text)"

definition choose_rut_for_doc :: "pystr \<Rightarrow> rut_cand list \<Rightarrow> pystr \<Rightarrow> pystr \<times> pystr" where
  "choose_rut_for_doc text ruts doc_type =
     (if ruts = [] then ([], [])
      else (case fst (choose_loop (sus_position text) doc_type ruts (None, - 1)) of
              None \<Rightarrow> ([], [])
            | Some b \<Rightarrow> b))"

text \<open>Names for the parts of a candidate, used to state properties of the chooser.\<close>

definition cand_id :: "rut_cand \<Rightarrow> pystr \<times> pystr" where
  "cand_id c = (case c of (pos, rut, dv, ctx, base) \<Rightarrow> (rut, dv))"



definition cand_score :: "pystr \<Rightarrow> pystr \<Rightarrow> rut_cand \<Rightarrow> int" where
  "cand_score text doc_type c =
     (case c of (pos, rut, dv, ctx, base) \<Rightarrow> rut_score (sus_position text) doc_type pos rut ctx base)"

definition is_bank_rut :: "rut_cand \<Rightarrow> bool" where
  "is_bank_rut c \<longleftrightarrow> cand_id c = (py ''97023000'', py ''9'')"

text \<open>
  The candidate the chooser is expected to return: the first one in list order, other than
  the bank's own RUT, whose score no other such candidate exceeds.
\<close>

definition first_best :: "pystr \<Rightarrow> pystr \<Rightarrow> rut_cand list \<Rightarrow> rut_cand option" where
  "first_best text dt ruts =
     find (\<lambda>c. \<not> is_bank_rut c \<and>
               (\<forall>d\<in>set ruts. \<not> is_bank_rut d \<longrightarrow> cand_score text dt d \<le> cand_score text dt c)) ruts"

text \<open>Page texts used as concrete inputs.\<close>

definition text_tie :: pystr where
  "text_tie = py ''RUT: 7.654.321-6 CEDULA DE IDENTIDAD N'' @ [0xB0] @ py '': 123456-7''"

definition text_bank_only :: pystr where
  "text_bank_only = py ''Banco X RUT 12.345.678-5''"




section \<open>Document classifier (process\_itau\_unified\_v1.py)\<close>

fun str_join :: "pystr \<Rightarrow> pystr list \<Rightarrow> pystr" where
  \<comment> \<open>\<^verbatim>\<open>sep.join(xs)\<close>\<close>
  "str_join sep [] = []"
| "str_join sep [x] = x"
| "str_join sep (x # y # ys) = x @ sep @ str_join sep (y # ys)"

definition pp_indicators :: "pystr list" where
  "pp_indicators =
     [py ''PAGAR'' @ [0xC9], py ''PAGARE'', py ''PAGAR'' @ [0xC1], py ''DOCUMENTO MERCANTIL'',
      py ''VALOR RECIBIDO'', py ''CONTRAVALOR RECIBIDO'', py ''ME OBLIGO A PAGAR'',
      py ''VENCIMIENTO'']"

definition cc_indicators :: "pystr list" where
  "cc_indicators =
     [py ''CR'' @ [0xC9] @ py ''DITO DE CONSUMO'', py ''CREDITO DE CONSUMO'',
      py ''L'' @ [0xCD] @ py ''NEA DE CR'' @ [0xC9] @ py ''DITO'', py ''CONTRATO DE MUTUO'',
      py ''CUOTAS'', py ''TASA DE INTER'' @ [0xC9] @ py ''S'', py ''CRONOGRAMA'',
      py ''TABLA DE DESARROLLO'', py ''PLAN DE PAGOS'']"

definition e_acute :: rx where
  \<comment> \<open>\<^verbatim>\<open>[e,U+00E9]\<close> under IGNORECASE\<close>
  "e_acute = Cls (\<lambda>x. lower_cp x = 101 \<or> lower_cp x = 0xE9)"

definition en_n_cuotas :: rx where
  \<comment> \<open>\<^verbatim>\<open>\ben\s+\d+\s+cuotas\b\<close>\<close>
  "en_n_cuotas = seqs [WordB, liti (py ''en''), plus ws, plus dg, plus ws, liti (py ''cuotas''), WordB]"

definition pagare_credito_consumo :: rx where
  \<comment> \<open>\<^verbatim>\<open>pagar[e,U+00E9]?\s+cr[e,U+00E9]dito\s+de?\s+consumo\<close>\<close>
  "pagare_credito_consumo =
     seqs [liti (py ''pagar''), opt e_acute, plus ws, liti (py ''cr''), e_acute, liti (py ''dito''),
           plus ws, ci 100, opt (ci 101), plus ws, liti (py ''consumo'')]"

definition pagare_or_obligo :: rx where
  \<comment> \<open>\<^verbatim>\<open>pagar[e,U+00E9]|me\s+obligo\s+a\s+pagar\<close>\<close>
  "pagare_or_obligo =
     Alt (seqs [liti (py ''pagar''), e_acute])
         (seqs [liti (py ''me''), plus ws, liti (py ''obligo''), plus ws, ci 97, plus ws,
                liti (py ''pagar'')])"

definition nombre_del_deudor :: rx where
  \<comment> \<open>\<^verbatim>\<open>Nombre\s+y\s+Apellidos\s+del\s+deudor\<close>\<close>
  "nombre_del_deudor =
     seqs [liti (py ''Nombre''), plus ws, ci 121, plus ws, liti (py ''Apellidos''), plus ws,
           liti (py ''del''), plus ws, liti (py ''deudor'')]"

definition cedula_identidad_pat :: rx where
  \<comment> \<open>\<^verbatim>\<open>C[e,U+00E9]dula\s+de\s+Identidad\<close>\<close>
  "cedula_identidad_pat =
     seqs [ci 67, e_acute, liti (py ''dula''), plus ws, liti (py ''de''), plus ws,
           liti (py ''Identidad'')]"

definition count_present :: "pystr list \<Rightarrow> pystr \<Rightarrow> int" where
  \<comment> \<open>\<^verbatim>\<open>sum(1 for indicator in indicators if indicator in combined_up)\<close>\<close>
  "count_present indicators combined_up =
     int (length (filter (\<lambda>indicator. str_contains indicator combined_up) indicators))"

definition detect_document_type :: "pystr list \<Rightarrow> pystr" where
  "detect_document_type text_pages =
     (let combined_text = str_join [10] text_pages;
          combined_up = str_upper combined_text;
          pp_score = count_present pp_indicators combined_up;
          cc_score = count_present cc_indicators combined_up;
          cc_score = (if re_found en_n_cuotas combined_text then cc_score + 3 else cc_score);
          cc_score = (if re_found pagare_credito_consumo combined_text then cc_score + 10
                      else cc_score);
          pp_score = (if re_found pagare_or_obligo combined_text then pp_score + 3 else pp_score);
          cc_score = (if re_found nombre_del_deudor combined_text
                         \<and> re_found cedula_identidad_pat combined_text
                      then cc_score + 4 else cc_score)
      in if pp_score > cc_score then py ''PP'' else py ''CC'')"

text \<open>The two scores as the specification describes them: the number of indicator phrases
  of a type that occur in the upper-cased text, plus the structural bonuses.\<close>

definition pp_total :: "pystr \<Rightarrow> int" where
  "pp_total text =
     count_present pp_indicators (str_upper text)
     + (if re_found pagare_or_obligo text then 3 else 0)"

definition cc_total :: "pystr \<Rightarrow> int" where
  "cc_total text =
     count_present cc_indicators (str_upper text)
     + (if re_found en_n_cuotas text then 3 else 0)
     + (if re_found pagare_credito_consumo text then 10 else 0)
     + (if re_found nombre_del_deudor text \<and> re_found cedula_identidad_pat text then 4 else 0)"

section \<open>Dictionaries\<close>

text \<open>A Python \<^verbatim>\<open>dict\<close> keeps its keys in insertion order: a list of pairs with distinct
  keys; assigning to an existing key keeps its place, a new key goes to the end.\<close>

type_synonym ('k, 'v) pydict = "('k \<times> 'v) list"

definition dict_get :: "('k, 'v) pydict \<Rightarrow> 'k \<Rightarrow> 'v \<Rightarrow> 'v" where
  \<comment> \<open>\<^verbatim>\<open>d.get(k, default)\<close>\<close>
  "dict_get d k dflt = (case map_of d k of None \<Rightarrow> dflt | Some v \<Rightarrow> v)"

fun dict_set :: "('k, 'v) pydict \<Rightarrow> 'k \<Rightarrow> 'v \<Rightarrow> ('k, 'v) pydict" where
  \<comment> \<open>\<^verbatim>\<open>d[k] = v\<close>\<close>
  "dict_set [] k v = [(k, v)]"
| "dict_set ((k', v') # d) k v = (if k' = k then (k, v) # d else (k', v') # dict_set d k v)"

definition bump :: "(pystr, int) pydict \<Rightarrow> pystr \<Rightarrow> (pystr, int) pydict" where
  \<comment> \<open>\<^verbatim>\<open>stats[k] = stats.get(k, 0) + 1\<close>\<close>
  "bump stats k = dict_set stats k (dict_get stats k 0 + 1)"

section \<open>RUT normalization (process\_itau\_auto\_v2.py)\<close>

definition rut_clean_digits :: "pystr \<Rightarrow> pystr" where
  \<comment> \<open>\<^verbatim>\<open>re.sub(r"[^\dkK]", "", rut or "")\<close>\<close>
  "rut_clean_digits rut = filter (\<lambda>c. re_digit c \<or> c = 107 \<or> c = 75) rut"

definition rut_calc_dv :: "pystr \<Rightarrow> py_error + pystr" where
  "rut_calc_dv num_str =
     (if \<not> str_isdigit num_str then Inr []
      else (case int_each (rev num_str) of
              Inl e \<Rightarrow> Inl e
            | Inr reversed_digits \<Rightarrow>
                let s = weighted_total reversed_digits; m = 11 - s mod 11 in
                Inr (if m = 11 then py ''0'' else if m = 10 then py ''K'' else str_nat m)))"

definition normalize_rut_and_dv ::
  "text_libs \<Rightarrow> pystr \<Rightarrow> pystr \<Rightarrow> py_error + (pystr \<times> pystr \<times> pystr \<times> bool)" where
  "normalize_rut_and_dv L rut dv =
     (let rut_num = rut_clean_digits rut;
          dv_clean = str_upper (clean_text_value L (Some dv))
      in case (if rut_num \<noteq> [] then rut_calc_dv rut_num else Inr []) of
           Inl e \<Rightarrow> Inl e
         | Inr calc \<Rightarrow>
             let valid = (if rut_num \<noteq> [] \<and> dv_clean \<noteq> [] then calc = dv_clean else True)
             in Inr (rut_num, dv_clean, calc, valid))"

text \<open>The RUT/DV block of \<^verbatim>\<open>clean_and_normalize_row\<close>, on the row and the counters as
  the preceding blocks leave them.\<close>

definition rut_dv_block ::
  "text_libs \<Rightarrow> bool \<Rightarrow> (pystr, pystr) pydict \<times> (pystr, int) pydict
     \<Rightarrow> py_error + ((pystr, pystr) pydict \<times> (pystr, int) pydict)" where
  "rut_dv_block L strict_dv rs =
     (case rs of (row, stats) \<Rightarrow>
        let rut_before = dict_get row (py ''RUT'') [];
            dv_before = dict_get row (py ''DV'') []
        in case normalize_rut_and_dv L rut_before dv_before of
             Inl e \<Rightarrow> Inl e
           | Inr (rut_num, dv_clean, dv_calc, ok) \<Rightarrow>
               let stats = (if rut_num \<noteq> rut_before \<or> dv_clean \<noteq> dv_before
                            then bump stats (py ''normalized_rut'') else stats);
                   row = dict_set row (py ''RUT'') rut_num;
                   row = dict_set row (py ''DV'') dv_clean
               in if rut_num \<noteq> [] \<and> dv_clean \<noteq> [] \<and> \<not> ok
                  then let stats = bump stats (py ''rut_invalid'');
                           row = (if strict_dv \<and> dv_calc \<noteq> []
                                  then dict_set row (py ''DV'') dv_calc else row)
                       in Inr (row, stats)
                  else Inr (row, stats))"

section \<open>Debug-trace merge (process\_itau\_auto\_v2.py)\<close>

definition str_strip_chars :: "pystr \<Rightarrow> pystr \<Rightarrow> pystr" where
  \<comment> \<open>\<^verbatim>\<open>s.strip(chars)\<close>\<close>
  "str_strip_chars cs s =
     rev (dropWhile (\<lambda>c. c \<in> set cs) (rev (dropWhile (\<lambda>c. c \<in> set cs) s)))"

definition merge_pairs :: "pystr list" where
  \<comment> \<open>the list \<^verbatim>\<open>pairs\<close>; both components of every pair are the same name\<close>
  "merge_pairs =
     [py ''NOMBRE'', py ''DIRECCION'', py ''COMUNA'', py ''FECHA_SUSCRIPCION'', py ''MONTO_CREDITO'',
      py ''FECHA_VENCIMIENTO_1_CUOTA'', py ''FECHA_VENCIMIENTO_ULTIMA_CUOTA'', py ''CAPITAL'',
      py ''PRODUCTO'', py ''NOMBRE_APODERADO'', py ''NOMBRE_APODERADO_2'']"

text \<open>The loop over \<^verbatim>\<open>key_opts\<close>: an empty key is skipped, the look-up of a later key
  replaces the result of an earlier one, and the loop stops at the first non-empty entry.\<close>

fun find_cand ::
  "(pystr, (pystr, pystr) pydict) pydict \<Rightarrow> pystr list \<Rightarrow> (pystr, pystr) pydict option
     \<Rightarrow> (pystr, pystr) pydict option" where
  "find_cand debug_map [] cand = cand"
| "find_cand debug_map (k # ks) cand =
     (if k = [] then find_cand debug_map ks cand
      else (case map_of debug_map k of
              None \<Rightarrow> find_cand debug_map ks None
            | Some c \<Rightarrow> if c \<noteq> [] then Some c else find_cand debug_map ks (Some c)))"

definition key_opts :: "(pystr, pystr) pydict \<Rightarrow> pystr list" where
  "key_opts row =
     [str_strip (dict_get row (py ''OPERACION'') []),
      str_strip_chars [45]
        (dict_get row (py ''RUT'') [] @ [45] @ dict_get row (py ''DV'') [] @ [45]
           @ dict_get row (py ''NOMBRE'') [])]"

definition merge_field ::
  "text_libs \<Rightarrow> pystr \<Rightarrow> (pystr, pystr) pydict \<Rightarrow> pystr
     \<Rightarrow> (pystr, pystr) pydict \<times> (pystr, int) pydict
     \<Rightarrow> (pystr, pystr) pydict \<times> (pystr, int) pydict" where
  \<comment> \<open>one iteration of the loop over \<^verbatim>\<open>pairs\<close>\<close>
  "merge_field L mode cand f rs =
     (case rs of (row, stats_fill) \<Rightarrow>
        let v_csv = clean_text_value L (Some (dict_get row f []));
            v_dbg = clean_text_value L (Some (dict_get cand f []))
        in if mode = py ''only_blanks'' then
             (if v_csv = [] \<and> v_dbg \<noteq> [] then (dict_set row f v_dbg, bump stats_fill f)
              else (row, stats_fill))
           else if mode = py ''prefer_debug'' then
             (if v_dbg \<noteq> [] \<and> v_dbg \<noteq> v_csv then (dict_set row f v_dbg, bump stats_fill f)
              else (row, stats_fill))
           else (row, stats_fill))"

definition merge_from_debug ::
  "text_libs \<Rightarrow> (pystr, pystr) pydict \<Rightarrow> (pystr, (pystr, pystr) pydict) pydict \<Rightarrow> pystr
     \<Rightarrow> (pystr, int) pydict \<Rightarrow> (pystr, int) pydict
     \<Rightarrow> (pystr, pystr) pydict \<times> (pystr, int) pydict \<times> (pystr, int) pydict" where
  \<comment> \<open>returns the row together with the two counter dictionaries it updates in place\<close>
  "merge_from_debug L row debug_map mode stats_fill stats =
     (if mode = py ''none'' \<or> debug_map = [] then (row, stats_fill, stats)
      else (case find_cand debug_map (key_opts row) None of
              None \<Rightarrow> (row, stats_fill, bump stats (py ''debug_merge_misses''))
            | Some cand \<Rightarrow>
                if cand = [] then (row, stats_fill, bump stats (py ''debug_merge_misses''))
                else let stats = bump stats (py ''debug_merge_hits'');
                         rs = fold (merge_field L mode cand) merge_pairs (row, stats_fill)
                     in (fst rs, snd rs, stats)))"

text \<open>The fill condition of a policy for one field, on the cleaned values.\<close>

definition fills :: "text_libs \<Rightarrow> pystr \<Rightarrow> (pystr, pystr) pydict \<Rightarrow> (pystr, pystr) pydict \<Rightarrow> pystr \<Rightarrow> bool" where
  "fills L mode row cand f \<longleftrightarrow>
     (let v_csv = clean_text_value L (Some (dict_get row f []));
          v_dbg = clean_text_value L (Some (dict_get cand f []))
      in (mode = py ''only_blanks'' \<and> v_csv = [] \<and> v_dbg \<noteq> [])
         \<or> (mode = py ''prefer_debug'' \<and> v_dbg \<noteq> [] \<and> v_dbg \<noteq> v_csv))"

definition trace_entry ::
  "(pystr, (pystr, pystr) pydict) pydict \<Rightarrow> (pystr, pystr) pydict \<Rightarrow> (pystr, pystr) pydict option" where
  \<comment> \<open>the matching trace entry, if there is a non-empty one\<close>
  "trace_entry debug_map row =
     (case find_cand debug_map (key_opts row) None of
        None \<Rightarrow> None
      | Some cand \<Rightarrow> if cand = [] then None else Some cand)"

text \<open>A trace used as a concrete input.\<close>

definition sample_trace :: "(pystr, (pystr, pystr) pydict) pydict" where
  "sample_trace =
     [(py ''123'', [(py ''OPERACION'', py ''123''), (py ''NOMBRE'', py ''PEDRO''),
                    (py ''COMUNA'', py ''TEMUCO''), (py ''TASA'', py ''2%'')])]"

section \<open>Page OCR text extractor (ocr\_to\_csv.py)\<close>

fun str_split :: "nat \<Rightarrow> pystr \<Rightarrow> pystr list" where
  \<comment> \<open>\<^verbatim>\<open>s.split(sep)\<close> for a one-character separator\<close>
  "str_split sep [] = [[]]"
| "str_split sep (c # cs) =
     (if c = sep then [] # str_split sep cs
      else (case str_split sep cs of [] \<Rightarrow> [[c]] | w # rest \<Rightarrow> (c # w) # rest))"

fun max_by :: "('a \<Rightarrow> int) \<Rightarrow> 'a \<Rightarrow> 'a list \<Rightarrow> 'a" where
  \<comment> \<open>\<^verbatim>\<open>max(xs, key=f)\<close> on a non-empty list \<open>x # xs\<close>: the first element with the greatest key\<close>
  "max_by f x [] = x"
| "max_by f x (y # ys) = max_by f (if f y > f x then y else x) ys"

definition max_by_len :: "pystr list \<Rightarrow> pystr" where
  \<comment> \<open>\<^verbatim>\<open>max(text_results, key=len)\<close>, called on a non-empty list only\<close>
  "max_by_len xs = (case xs of [] \<Rightarrow> [] | x # rest \<Rightarrow> max_by (\<lambda>t. int (length t)) x rest)"

definition ocr_configs :: "pystr list" where
  "ocr_configs = [py ''--oem 3 --psm 6'', py ''--oem 3 --psm 4'', py ''--oem 3 --psm 3'',
                  py ''--oem 1 --psm 6'']"

text \<open>
  The environment of the extractor: \<open>image_open\<close> is \<^verbatim>\<open>Image.open\<close>, \<open>image_to_string\<close> is
  \<^verbatim>\<open>pytesseract.image_to_string\<close> for the configured language (\<open>Inl\<close> where it raises), and
  \<open>set_iter\<close> gives the order in which a Python \<^verbatim>\<open>set\<close> built from the given insertions
  is iterated (some order of its distinct elements).
\<close>

record 'img ocr_env =
  image_open :: "pystr \<Rightarrow> py_error + 'img"
  image_to_string :: "'img \<Rightarrow> pystr \<Rightarrow> py_error + pystr"
  set_iter :: "pystr list \<Rightarrow> pystr list"

fun collect_texts :: "'img ocr_env \<Rightarrow> 'img \<Rightarrow> pystr list \<Rightarrow> pystr list" where
  \<comment> \<open>the loop over the configurations; a configuration that raises is skipped\<close>
  "collect_texts E img [] = []"
| "collect_texts E img (config # configs) =
     (case image_to_string E img config of
        Inl e \<Rightarrow> collect_texts E img configs
      | Inr t \<Rightarrow> let text = str_strip t in
                 if text \<noteq> [] then text # collect_texts E img configs
                 else collect_texts E img configs)"

definition extract_text_from_image :: "'img ocr_env \<Rightarrow> pystr \<Rightarrow> py_error + pystr" where
  "extract_text_from_image E image_path =
     (case image_open E image_path of
        Inl e \<Rightarrow> Inl e
      | Inr img \<Rightarrow>
          let text_results = collect_texts E img ocr_configs in
          if text_results \<noteq> [] then
            let best_text = max_by_len text_results;
                all_lines = set_iter E (concat (map (str_split 10) text_results));
                combined_text = str_join [10] (sort_key (\<lambda>l. - int (length l)) all_lines)
            in Inr combined_text
          else Inr [])"

text \<open>An engine used as a concrete input: only the first configuration recognises text,
  the two lines \<^verbatim>\<open>ab\<close> and \<^verbatim>\<open>cdef\<close>; the others raise.\<close>

definition sample_env :: "unit ocr_env" where
  "sample_env =
     \<lparr>image_open = (\<lambda>p. Inr ()),
      image_to_string = (\<lambda>i c. if c = py ''--oem 3 --psm 6'' then Inr (py ''ab'' @ [10] @ py ''cdef'' @ [10])
                               else Inl OtherError),
      set_iter = remdups\<rparr>"

section \<open>Row assembly (process\_itau\_unified\_v1.py, ocr\_to\_csv.py)\<close>

definition UNIFIED_COLUMNS :: "pystr list" where
  "UNIFIED_COLUMNS =
     [py ''OPERACION_1'', py ''RUT'', py ''DV'', py ''NOMBRE'', py ''DIRECCION'', py ''COMUNA'',
      py ''FECHA_SUSCRIPCION_1'', py ''MONTO_CREDITO_1'', py ''CUOTAS_1'', py ''TASA_1'',
      py ''MONTO_CUOTA_1'', py ''MONTO_ULTIMA_CUOTA_1'', py ''FECHA_VENCIMIENTO_1_CUOTA_1'',
      py ''FECHA_VENCIMIENTO_ULTIMA_CUOTA_1'', py ''CUOTA_MOROSA_1'', py ''FECHA_CUOTA_MOROSA_1'',
      py ''CAPITAL_1'', py ''EXHORTO'', py ''SUCURSAL'', py ''PRODUCTO'', py ''NOMBRE_APODERADO'',
      py ''NOMBRE_APODERADO_2'']"

definition csv_headers :: "pystr list" where
  \<comment> \<open>the list \<^verbatim>\<open>headers\<close> of \<^verbatim>\<open>OCRToCSV.write_csv\<close>\<close>
  "csv_headers =
     [py ''OPERACION'', py ''RUT'', py ''DV'', py ''NOMBRE'', py ''DIRECCION'', py ''COMUNA'',
      py ''FECHA_SUSCRIPCION'', py ''MONTO_CREDITO'', py ''CUOTAS'', py ''TASA'', py ''MONTO_CUOTA'',
      py ''MONTO_ULTIMA_CUOTA'', py ''FECHA_VENCIMIENTO_1_CUOTA'', py ''FECHA_VENCIMIENTO_ULTIMA_CUOTA'',
      py ''CUOTA_MOROSA'', py ''FECHA_CUOTA_MOROSA'', py ''CAPITAL'', py ''PRODUCTO'',
      py ''NOMBRE_APODERADO'', py ''NOMBRE_APODERADO_2'']"

definition create_empty_row :: "pystr \<Rightarrow> (pystr, pystr) pydict" where
  "create_empty_row pdf_name =
     [(py ''OPERACION'', str_replace (py ''.pdf'') [] pdf_name),
      (py ''RUT'', []), (py ''DV'', []), (py ''NOMBRE'', []), (py ''DIRECCION'', []),
      (py ''COMUNA'', []), (py ''FECHA_SUSCRIPCION'', []), (py ''MONTO_CREDITO'', []),
      (py ''CUOTAS'', []), (py ''TASA'', []), (py ''MONTO_CUOTA'', []),
      (py ''MONTO_ULTIMA_CUOTA'', []), (py ''FECHA_VENCIMIENTO_1_CUOTA'', []),
      (py ''FECHA_VENCIMIENTO_ULTIMA_CUOTA'', []), (py ''CUOTA_MOROSA'', []),
      (py ''FECHA_CUOTA_MOROSA'', []), (py ''CAPITAL'', []),
      (py ''PRODUCTO'', py ''CREDITO CONSUMO''),
      (py ''NOMBRE_APODERADO'', py ''YASNA DEL CARMEN OLAVE MARTINEZ''),
      (py ''NOMBRE_APODERADO_2'', py ''ERWIN ORLANDO ALIAGA MARILLAN'')]"

text \<open>
  The field pattern matchers of the unified module are regular-expression cascades over
  the page text (with calls to \<^verbatim>\<open>datetime\<close> and \<^verbatim>\<open>difflib\<close>); the row assemblers take them as
  parameters.  Each returns a string, or a pair of strings, for every text.
\<close>

record ident_block =
  id_name :: pystr
  id_rut :: pystr
  id_dv :: pystr
  id_address :: pystr
  id_comuna :: pystr

record extractors =
  extract_operation_from_text :: "pystr \<Rightarrow> pystr"
  extract_operation_from_filename :: "pystr \<Rightarrow> pystr"
  extract_nombre_generic :: "pystr \<Rightarrow> pystr"
  extract_domicilio_and_comuna_pp :: "pystr \<Rightarrow> pystr \<times> pystr"
  parse_spanish_date :: "pystr \<Rightarrow> pystr"
  extract_amount :: "pystr \<Rightarrow> pystr" \<comment> \<open>the formatted amount, first component of the result\<close>
  extract_fecha_vencimiento_primera_cuota :: "pystr \<Rightarrow> pystr"
  extract_fecha_vencimiento_ultima_cuota :: "pystr \<Rightarrow> pystr"
  extract_representantes_allpages :: "pystr list \<Rightarrow> pystr \<times> pystr"
  extract_cc_identity_block :: "pystr list \<Rightarrow> ident_block"
  clean_and_fix_address :: "pystr \<Rightarrow> pystr"
  fix_comuna_ocr :: "pystr \<Rightarrow> pystr"
  fix_n_to_ene :: "pystr \<Rightarrow> pystr"

definition py_or :: "pystr \<Rightarrow> pystr \<Rightarrow> pystr" where
  \<comment> \<open>\<^verbatim>\<open>a or b\<close> on strings\<close>
  "py_or a b = (if a \<noteq> [] then a else b)"

fun extract_operation_allpages :: "extractors \<Rightarrow> pystr list \<Rightarrow> pystr" where
  "extract_operation_allpages X [] = []"
| "extract_operation_allpages X (t # ts) =
     (let op = extract_operation_from_text X t in
      if op \<noteq> [] then op else extract_operation_allpages X ts)"

definition OPERACION_key :: pystr where
  \<comment> \<open>the page-row key \<^verbatim>\<open>OPERACI\<close>U+00D3\<^verbatim>\<open>N\<close>\<close>
  "OPERACION_key = py ''OPERACI'' @ [0xD3] @ py ''N''"

definition page_rut :: "pystr \<Rightarrow> pystr \<Rightarrow> pystr \<times> pystr" where
  \<comment> \<open>\<^verbatim>\<open>choose_rut_for_doc(text, ruts, doc_type) if ruts else ("","")\<close>\<close>
  "page_rut text doc_type =
     (let ruts = find_all_ruts text in
      if ruts \<noteq> [] then choose_rut_for_doc text ruts doc_type else ([], []))"

definition pp_page_row :: "extractors \<Rightarrow> pystr \<Rightarrow> (pystr, pystr) pydict" where
  "pp_page_row X text =
     (let op = extract_operation_from_text X text;
          rd = page_rut text (py ''PP'');
          nombre = extract_nombre_generic X text;
          dc = extract_domicilio_and_comuna_pp X text;
          fecha_sus = parse_spanish_date X text;
          monto_fmt = extract_amount X text;
          fecha_venc_1 = extract_fecha_vencimiento_primera_cuota X text;
          fecha_venc_ultima = extract_fecha_vencimiento_ultima_cuota X text
      in [(py ''text'', text), (OPERACION_key, op), (py ''RUT'', fst rd), (py ''DV'', snd rd),
          (py ''NOMBRE'', nombre), (py ''DIRECCION'', fst dc), (py ''COMUNA'', snd dc),
          (py ''FECHA_SUSCRIPCION'', fecha_sus), (py ''MONTO_CREDITO'', monto_fmt),
          (py ''FECHA_VENC_1'', fecha_venc_1), (py ''FECHA_VENC_ULTIMA'', fecha_venc_ultima)])"

definition cc_page_row :: "extractors \<Rightarrow> pystr \<Rightarrow> (pystr, pystr) pydict" where
  "cc_page_row X text =
     (let op = extract_operation_from_text X text;
          rd = page_rut text (py ''CC'');
          nombre_g = extract_nombre_generic X text;
          fecha_sus = parse_spanish_date X text;
          monto_fmt = extract_amount X text;
          fecha_venc_1 = extract_fecha_vencimiento_primera_cuota X text;
          fecha_venc_ultima = extract_fecha_vencimiento_ultima_cuota X text
      in [(py ''text'', text), (OPERACION_key, op), (py ''RUT'', fst rd), (py ''DV'', snd rd),
          (py ''NOMBRE_G'', nombre_g),
          (py ''FECHA_SUSCRIPCION'', fecha_sus), (py ''MONTO_CREDITO'', monto_fmt),
          (py ''FECHA_VENC_1'', fecha_venc_1), (py ''FECHA_VENC_ULTIMA'', fecha_venc_ultima)])"

definition score_row_basic :: "pystr \<Rightarrow> (pystr, pystr) pydict \<Rightarrow> int" where
  \<comment> \<open>the name key is \<^verbatim>\<open>NOMBRE\<close> for PP and \<^verbatim>\<open>NOMBRE_G\<close> for CC\<close>
  "score_row_basic name_key r =
     (if dict_get r OPERACION_key [] \<noteq> [] then 50 else 0)
     + (if dict_get r (py ''RUT'') [] \<noteq> [] then 30 else 0)
     + (if dict_get r name_key [] \<noteq> [] then 20 else 0)
     + (if dict_get r (py ''MONTO_CREDITO'') [] \<noteq> [] then 10 else 0)"

definition best_row :: "pystr \<Rightarrow> (pystr, pystr) pydict list \<Rightarrow> (pystr, pystr) pydict" where
  \<comment> \<open>\<^verbatim>\<open>max(rows, key=score_row_basic) if rows else {}\<close>\<close>
  "best_row name_key rows =
     (case rows of [] \<Rightarrow> [] | r # rest \<Rightarrow> max_by (score_row_basic name_key) r rest)"

fun first_value :: "pystr \<Rightarrow> (pystr, pystr) pydict list \<Rightarrow> pystr" where
  \<comment> \<open>the loop that keeps the first non-empty value of a key over the page rows\<close>
  "first_value k [] = []"
| "first_value k (r # rs) = (if dict_get r k [] \<noteq> [] then dict_get r k [] else first_value k rs)"

text \<open>The two assemblers.  \<^verbatim>\<open>producto_hint\<close> and the calls of \<^verbatim>\<open>write_debug\<close> only feed the
  debug log and are left out; the parameter \<^verbatim>\<open>use_geocode\<close> is not used by either function.\<close>

definition process_pagare :: "extractors \<Rightarrow> pystr list \<Rightarrow> pystr \<Rightarrow> (pystr, pystr) pydict" where
  "process_pagare X text_pages source_name =
     (let rows = map (pp_page_row X) text_pages;
          operation = extract_operation_allpages X text_pages;
          op_from_file = extract_operation_from_filename X source_name;
          best = best_row (py ''NOMBRE'') rows;
          reps = extract_representantes_allpages X text_pages;
          direccion = clean_and_fix_address X (dict_get best (py ''DIRECCION'') []);
          comuna = fix_comuna_ocr X (dict_get best (py ''COMUNA'') []);
          nombre_corregido = fix_n_to_ene X (dict_get best (py ''NOMBRE'') []);
          direccion_corregida = fix_n_to_ene X direccion;
          comuna_corregida = fix_n_to_ene X comuna;
          fecha_sus_final = first_value (py ''FECHA_SUSCRIPCION'') rows;
          fecha_venc_1_final = first_value (py ''FECHA_VENC_1'') rows;
          fecha_venc_ultima_final = first_value (py ''FECHA_VENC_ULTIMA'') rows;
          producto_out = py ''PP''
      in [(py ''OPERACION_1'', py_or operation (py_or (dict_get best OPERACION_key []) op_from_file)),
          (py ''RUT'', dict_get best (py ''RUT'') []), (py ''DV'', dict_get best (py ''DV'') []),
          (py ''NOMBRE'', nombre_corregido),
          (py ''DIRECCION'', direccion_corregida), (py ''COMUNA'', comuna_corregida),
          (py ''FECHA_SUSCRIPCION_1'',
             py_or fecha_sus_final (dict_get best (py ''FECHA_SUSCRIPCION'') [])),
          (py ''MONTO_CREDITO_1'', dict_get best (py ''MONTO_CREDITO'') []),
          (py ''CUOTAS_1'', []), (py ''TASA_1'', []), (py ''MONTO_CUOTA_1'', []),
          (py ''MONTO_ULTIMA_CUOTA_1'', []),
          (py ''FECHA_VENCIMIENTO_1_CUOTA_1'',
             py_or fecha_venc_1_final (dict_get best (py ''FECHA_SUSCRIPCION'') [])),
          (py ''FECHA_VENCIMIENTO_ULTIMA_CUOTA_1'',
             py_or fecha_venc_ultima_final (dict_get best (py ''FECHA_SUSCRIPCION'') [])),
          (py ''CUOTA_MOROSA_1'', []), (py ''FECHA_CUOTA_MOROSA_1'', []),
          (py ''CAPITAL_1'', dict_get best (py ''MONTO_CREDITO'') []),
          (py ''EXHORTO'', py ''TEMUCO''), (py ''SUCURSAL'', py ''SANTIAGO''),
          (py ''PRODUCTO'', producto_out),
          (py ''NOMBRE_APODERADO'', fix_n_to_ene X (fst reps)),
          (py ''NOMBRE_APODERADO_2'', fix_n_to_ene X (snd reps))])"

definition process_credito_consumo :: "extractors \<Rightarrow> pystr list \<Rightarrow> pystr \<Rightarrow> (pystr, pystr) pydict" where
  "process_credito_consumo X text_pages source_name =
     (let ident = extract_cc_identity_block X text_pages;
          rows = map (cc_page_row X) text_pages;
          best = best_row (py ''NOMBRE_G'') rows;
          operation = py_or (extract_operation_allpages X (map (\<lambda>r. dict_get r (py ''text'') []) rows))
                            (dict_get best OPERACION_key []);
          op_from_file = extract_operation_from_filename X source_name;
          nombre = py_or (id_name ident) (py_or (dict_get best (py ''NOMBRE_G'') []) []);
          rut = py_or (id_rut ident) (py_or (dict_get best (py ''RUT'') []) []);
          dv = py_or (id_dv ident) (py_or (dict_get best (py ''DV'') []) []);
          direccion = clean_and_fix_address X (py_or (id_address ident) []);
          comuna = fix_comuna_ocr X (py_or (id_comuna ident) []);
          nombre_corregido = fix_n_to_ene X nombre;
          direccion_corregida = fix_n_to_ene X direccion;
          comuna_corregida = fix_n_to_ene X comuna;
          fecha_venc_1_final = first_value (py ''FECHA_VENC_1'') rows;
          fecha_venc_ultima_final = first_value (py ''FECHA_VENC_ULTIMA'') rows;
          reps = extract_representantes_allpages X text_pages
      in [(py ''OPERACION_1'', py_or operation op_from_file),
          (py ''RUT'', rut), (py ''DV'', dv), (py ''NOMBRE'', nombre_corregido),
          (py ''DIRECCION'', direccion_corregida), (py ''COMUNA'', comuna_corregida),
          (py ''FECHA_SUSCRIPCION_1'', dict_get best (py ''FECHA_SUSCRIPCION'') []),
          (py ''MONTO_CREDITO_1'', dict_get best (py ''MONTO_CREDITO'') []),
          (py ''CUOTAS_1'', []), (py ''TASA_1'', []), (py ''MONTO_CUOTA_1'', []),
          (py ''MONTO_ULTIMA_CUOTA_1'', []),
          (py ''FECHA_VENCIMIENTO_1_CUOTA_1'', fecha_venc_1_final),
          (py ''FECHA_VENCIMIENTO_ULTIMA_CUOTA_1'', fecha_venc_ultima_final),
          (py ''CUOTA_MOROSA_1'', []), (py ''FECHA_CUOTA_MOROSA_1'', []),
          (py ''CAPITAL_1'', dict_get best (py ''MONTO_CREDITO'') []),
          (py ''EXHORTO'', py ''TEMUCO''), (py ''SUCURSAL'', py ''SANTIAGO''),
          (py ''PRODUCTO'', py ''CC''),
          (py ''NOMBRE_APODERADO'', fix_n_to_ene X (fst reps)),
          (py ''NOMBRE_APODERADO_2'', fix_n_to_ene X (snd reps))])"

definition process_document_unified ::
  "extractors \<Rightarrow> pystr list \<Rightarrow> pystr \<Rightarrow> pystr \<Rightarrow> (pystr, pystr) pydict" where
  "process_document_unified X text_pages doc_type source_name =
     (if doc_type = py ''PP'' then process_pagare X text_pages source_name
      else process_credito_consumo X text_pages source_name)"


section \<open>Batch orchestrators\<close>

text \<open>
  The CSV generator (ocr\_to\_csv.py).  \<open>convert_and_save\<close> is the body of \<^verbatim>\<open>pdf_to_images\<close>
  (rasterising, enhancing and saving the pages; \<open>Inl\<close> where it raises) and \<open>fields_to_row\<close>
  is \<^verbatim>\<open>extract_fields_from_text\<close> followed by \<^verbatim>\<open>create_csv_row\<close> (\<open>Inl\<close> where they raise).
\<close>

record 'img csv_env =
  csv_ocr :: "'img ocr_env"
  convert_and_save :: "pystr \<Rightarrow> py_error + pystr list"
  fields_to_row :: "pystr \<Rightarrow> pystr \<Rightarrow> py_error + (pystr, pystr) pydict"

definition pdf_to_images :: "'img csv_env \<Rightarrow> pystr \<Rightarrow> pystr list" where
  "pdf_to_images E pdf_path =
     (case convert_and_save E pdf_path of Inl e \<Rightarrow> [] | Inr image_paths \<Rightarrow> image_paths)"

definition page_banner :: "pystr \<Rightarrow> pystr" where
  \<comment> \<open>the f-string before a page text; its \<^verbatim>\<open>\\n\<close> are a backslash and the letter n\<close>
  "page_banner name =
     [92, 110, 92, 110] @ py ''--- P'' @ [0xC1] @ py ''GINA '' @ name @ py '' ---'' @ [92, 110, 92, 110]"

fun ocr_all_pages :: "'img csv_env \<Rightarrow> pystr list \<Rightarrow> pystr \<Rightarrow> py_error + pystr" where
  "ocr_all_pages E [] all_text = Inr all_text"
| "ocr_all_pages E (image_path # rest) all_text =
     (case extract_text_from_image (csv_ocr E) image_path of
        Inl e \<Rightarrow> Inl e
      | Inr page_text \<Rightarrow> ocr_all_pages E rest (all_text @ page_banner image_path @ page_text))"

definition process_pdf :: "'img csv_env \<Rightarrow> pystr \<Rightarrow> py_error + (pystr, pystr) pydict" where
  "process_pdf E pdf_path =
     (let image_paths = pdf_to_images E pdf_path in
      if image_paths = [] then Inr (create_empty_row pdf_path)
      else (case ocr_all_pages E image_paths [] of
              Inl e \<Rightarrow> Inl e
            | Inr all_text \<Rightarrow> fields_to_row E all_text pdf_path))"

fun process_each :: "'img csv_env \<Rightarrow> pystr list \<Rightarrow> (pystr, pystr) pydict list" where
  \<comment> \<open>the loop of \<^verbatim>\<open>process_all_pdfs\<close> with its \<^verbatim>\<open>try\<close>/\<^verbatim>\<open>except\<close>\<close>
  "process_each E [] = []"
| "process_each E (pdf_file # rest) =
     (case process_pdf E pdf_file of
        Inr pdf_data \<Rightarrow> pdf_data # process_each E rest
      | Inl e \<Rightarrow> create_empty_row pdf_file # process_each E rest)"

definition process_all_pdfs :: "'img csv_env \<Rightarrow> pystr list \<Rightarrow> py_error + (pystr, pystr) pydict list" where
  \<comment> \<open>the rows handed to \<^verbatim>\<open>write_csv\<close>; without PDF files the program exits\<close>
  "process_all_pdfs E pdf_files =
     (if pdf_files = [] then Inl SystemExit else Inr (process_each E pdf_files))"

text \<open>
  The unified module's \<^verbatim>\<open>main\<close>.  \<open>u_convert\<close> is \<^verbatim>\<open>convert_pdf_to_images\<close> (the empty list where
  rasterising fails), \<open>u_ocr\<close> is \<^verbatim>\<open>ocr_image_to_text\<close> (the empty string where OCR fails) and
  \<open>u_process\<close> is \<^verbatim>\<open>process_document_unified\<close>, \<open>Inl\<close> where it raises.
\<close>

record unified_env =
  u_convert :: "pystr \<Rightarrow> pystr list"
  u_ocr :: "pystr \<Rightarrow> pystr"
  u_process :: "pystr list \<Rightarrow> pystr \<Rightarrow> pystr \<Rightarrow> py_error + (pystr, pystr) pydict"

fun main_loop :: "unified_env \<Rightarrow> pystr list \<Rightarrow> (pystr, pystr) pydict list \<Rightarrow> (pystr, pystr) pydict list" where
  "main_loop U [] all_rows = all_rows"
| "main_loop U (pdf # rest) all_rows =
     (let images = u_convert U pdf in
      if images = [] then main_loop U rest all_rows
      else let text_pages = map (u_ocr U) images;
               doc_type = detect_document_type text_pages
           in (case u_process U text_pages doc_type pdf of
                 Inr row \<Rightarrow> main_loop U rest (all_rows @ [row])
               | Inl e \<Rightarrow> main_loop U rest all_rows))"

definition main_rows :: "unified_env \<Rightarrow> pystr list \<Rightarrow> (pystr, pystr) pydict list" where
  \<comment> \<open>\<^verbatim>\<open>all_rows\<close> after the loop of \<^verbatim>\<open>main\<close>\<close>
  "main_rows U pdfs = main_loop U pdfs []"

definition yields_row :: "unified_env \<Rightarrow> pystr \<Rightarrow> bool" where
  \<comment> \<open>the PDF rasterises to at least one image and its processing does not raise\<close>
  "yields_row U pdf \<longleftrightarrow>
     u_convert U pdf \<noteq> [] \<and>
     (case u_process U (map (u_ocr U) (u_convert U pdf))
             (detect_document_type (map (u_ocr U) (u_convert U pdf))) pdf of
        Inr row \<Rightarrow> True | Inl e \<Rightarrow> False)"

text \<open>Concrete environments.  The matchers are stand-ins that agree with the real ones
  on the inputs used: an empty page text gives empty results, and a file name with one
  group of six digits gives that group.\<close>

definition blank_extractors :: extractors where
  "blank_extractors =
     \<lparr>extract_operation_from_text = (\<lambda>t. []),
      extract_operation_from_filename = filter re_digit,
      extract_nombre_generic = (\<lambda>t. []),
      extract_domicilio_and_comuna_pp = (\<lambda>t. ([], [])),
      parse_spanish_date = (\<lambda>t. []),
      extract_amount = (\<lambda>t. []),
      extract_fecha_vencimiento_primera_cuota = (\<lambda>t. []),
      extract_fecha_vencimiento_ultima_cuota = (\<lambda>t. []),
      extract_representantes_allpages = (\<lambda>ts. ([], [])),
      extract_cc_identity_block =
        (\<lambda>ts. \<lparr>id_name = [], id_rut = [], id_dv = [], id_address = [], id_comuna = []\<rparr>),
      clean_and_fix_address = (\<lambda>a. a),
      fix_comuna_ocr = (\<lambda>c. c),
      fix_n_to_ene = (\<lambda>t. t)\<rparr>"

definition sample_unified :: unified_env where
  \<comment> \<open>the second PDF cannot be rasterised; OCR finds no text on the pages of the others\<close>
  "sample_unified =
     \<lparr>u_convert = (\<lambda>pdf. if pdf = py ''860419.pdf'' then [] else [py ''page1.png'']),
      u_ocr = (\<lambda>img. []),
      u_process = (\<lambda>pages dt name. Inr (process_document_unified blank_extractors pages dt name))\<rparr>"

definition sample_csv :: "unit csv_env" where
  "sample_csv =
     \<lparr>csv_ocr = sample_env,
      convert_and_save = (\<lambda>pdf. if pdf = py ''860419.pdf'' then Inl OtherError
                                else Inr [py ''page_01.png'']),
      fields_to_row = (\<lambda>all_text name. Inr [(py ''OPERACION'', str_replace (py ''.pdf'') [] name),
                                                (py ''NOMBRE'', py ''AB'')])\<rparr>"

definition three_pdfs :: "pystr list" where
  "three_pdfs = [py ''860418.pdf'', py ''860419.pdf'', py ''860420.pdf'']"

section \<open>Verification\<close>

subsection \<open>Check digit (C3)\<close>

lemma int_each_digits:
  "list_all re_digit d \<Longrightarrow> int_each d = Inr (map (\<lambda>c. c - 48) d)"
  by (induction d) (auto simp: re_digit_def py_int_digit_def)

lemma str_nat_digit: "n < 10 \<Longrightarrow> str_nat n = [48 + n]"
  by (subst str_nat.simps) simp

lemma dv_of_total_shape:
  "\<exists>c. dv_of_total s = [c] \<and> ((48 \<le> c \<and> c \<le> 57) \<or> c = 75)"
proof -
  define r where "r = 11 - s mod 11"
  have r: "1 \<le> r" "r \<le> 11" unfolding r_def by simp_all
  consider "r = 11" | "r = 10" | "r < 10" using r by linarith
  then show ?thesis
  proof cases
    case 1
    then show ?thesis by (simp add: dv_of_total_def r_def [symmetric] py_def)
  next
    case 2
    then show ?thesis by (simp add: dv_of_total_def r_def [symmetric] py_def)
  next
    case 3
    then show ?thesis by (simp add: dv_of_total_def r_def [symmetric] str_nat_digit)
  qed
qed

lemma dv_char_fixed:
  assumes "(48 \<le> c \<and> c \<le> 57) \<or> c = 75"
  shows "str_strip (str_upper [c]) = [c]"
proof -
  have lt: "c < 97"
    using assms by linarith
  then have "\<not> 97 \<le> c" "c \<noteq> 0xB5" "c \<noteq> 0xDF" "\<not> 0xE0 \<le> c" "c \<noteq> 0xFF"
    by simp_all
  then have u: "upper_cp c = [c]"
    unfolding upper_cp_def by simp
  have w: "\<not> isspace_cp c"
    using assms unfolding isspace_cp_def by linarith
  show ?thesis
    by (simp add: str_strip_def str_upper_def u w)
qed

lemma dv_of_total_clean:
  "dv_of_total s \<noteq> [] \<and> str_strip (str_upper (dv_of_total s)) = dv_of_total s"
proof -
  obtain c where c: "dv_of_total s = [c]" "(48 \<le> c \<and> c \<le> 57) \<or> c = 75"
    using dv_of_total_shape by blast
  show ?thesis
    using c(1) dv_char_fixed [OF c(2)] by simp
qed

lemma calculate_dv_digits:
  assumes "d \<noteq> []" "list_all re_digit d"
  shows "calculate_dv d = Inr (dv_of_total (weighted_total (map (\<lambda>c. c - 48) (rev d))))"
proof -
  have "str_isdigit d"
    using assms by (auto simp: str_isdigit_def list_all_iff re_digit_def isdigit_cp_def)
  moreover have "int_each (rev d) = Inr (map (\<lambda>c. c - 48) (rev d))"
    using assms(2) by (intro int_each_digits) (simp add: list_all_iff)
  ultimately show ?thesis by (simp add: calculate_dv_def)
qed

text \<open>
  Claim C3.  For every string \<open>d\<close> of 7 to 8 decimal digits, \<^verbatim>\<open>calculate_dv\<close> returns a check
  digit \<open>dv\<close> without raising, and \<^verbatim>\<open>validate_rut_dv(d, dv)\<close> returns the digits unchanged,
  the same check digit and the validity flag \<^verbatim>\<open>True\<close>.  The witness is the pair
  \<^verbatim>\<open>"4499116"\<close>, \<^verbatim>\<open>"0"\<close> of the sample reference data.
\<close>

theorem validate_own_check_digit:
  assumes "list_all re_digit d" and "7 \<le> length d" and "length d \<le> 8"
  shows "\<exists>dv. calculate_dv d = Inr dv \<and> validate_rut_dv d dv = Inr (d, dv, True)"
proof -
  from assms(2) have ne: "d \<noteq> []" by auto
  define dv where "dv = dv_of_total (weighted_total (map (\<lambda>c. c - 48) (rev d)))"
  have c: "calculate_dv d = Inr dv"
    unfolding dv_def using ne assms(1) by (rule calculate_dv_digits)
  have f: "filter re_digit d = d"
    using assms(1) by (simp add: list_all_iff)
  have k: "dv \<noteq> [] \<and> str_strip (str_upper dv) = dv"
    unfolding dv_def by (rule dv_of_total_clean)
  have "validate_rut_dv d dv = Inr (d, dv, True)"
    using ne f c k by (simp add: validate_rut_dv_def Let_def)
  with c show ?thesis by blast
qed

theorem validate_own_check_digit_witness:
  "list_all re_digit (py ''4499116'') \<and> calculate_dv (py ''4499116'') = Inr (py ''0'')
   \<and> validate_rut_dv (py ''4499116'') (py ''0'') = Inr (py ''4499116'', py ''0'', True)"
proof -
  have h: "list_all re_digit (py ''4499116'')" by (simp add: py_def re_digit_def)
  have l: "7 \<le> length (py ''4499116'')" "length (py ''4499116'') \<le> 8" by (simp_all add: py_def)
  have c: "calculate_dv (py ''4499116'') = Inr (py ''0'')" by code_simp
  from validate_own_check_digit [OF h l] c h show ?thesis by auto
qed

subsection \<open>Text normalizer (C4)\<close>














lemmas norm_eval = fallback_libs_def nfc_fallback_def str_replace_def str_strip_def re_sub_ws_def
  isspace_cp_def acute_composites_def py_def





subsection \<open>Candidate chooser (C5, C6)\<close>

lemma choose_loop_step:
  "choose_loop (sus_position text) dt (x # xs) (b, bs) =
     (if is_bank_rut x then choose_loop (sus_position text) dt xs (b, bs)
      else if bs < cand_score text dt x
        then choose_loop (sus_position text) dt xs (Some (cand_id x), cand_score text dt x)
        else choose_loop (sus_position text) dt xs (b, bs))"
  by (cases x) (auto simp: is_bank_rut_def cand_id_def cand_score_def Let_def)

lemma choose_loop_keep:
  assumes "\<forall>c\<in>set ruts. \<not> is_bank_rut c \<longrightarrow> cand_score text dt c \<le> bs"
  shows "choose_loop (sus_position text) dt ruts (b, bs) = (b, bs)"
  using assms
proof (induction ruts)
  case Nil
  show ?case by simp
next
  case (Cons c ruts)
  show ?case
  proof (cases "is_bank_rut c")
    case True
    then show ?thesis using Cons by (simp add: choose_loop_step del: choose_loop.simps)
  next
    case False
    then have "cand_score text dt c \<le> bs" using Cons.prems by simp
    then show ?thesis using Cons False
      by (simp add: choose_loop_step del: choose_loop.simps)
  qed
qed

lemma choose_loop_first_best:
  assumes "first_best text dt ruts = Some c" and "bs < cand_score text dt c"
  shows "choose_loop (sus_position text) dt ruts (b, bs) = (Some (cand_id c), cand_score text dt c)"
  using assms
proof (induction ruts arbitrary: b bs)
  case Nil
  then show ?case by (simp add: first_best_def)
next
  case (Cons x xs)
  let ?sc = "cand_score text dt"
  define P where
    "P = (\<lambda>ys c. \<not> is_bank_rut c \<and> (\<forall>d\<in>set ys. \<not> is_bank_rut d \<longrightarrow> ?sc d \<le> ?sc c))"
  have fbP: "first_best text dt ys = find (P ys) ys" for ys
    by (simp add: first_best_def P_def)
  have fb: "find (P (x # xs)) (x # xs) = Some c"
    using Cons.prems(1) by (simp only: fbP)
  show ?case
  proof (cases "P (x # xs) x")
    case True
    then have cx: "c = x" using fb by simp
    have nb: "\<not> is_bank_rut x" using True by (simp add: P_def)
    have "\<forall>d\<in>set xs. \<not> is_bank_rut d \<longrightarrow> ?sc d \<le> ?sc x"
      using True by (simp add: P_def)
    then have "choose_loop (sus_position text) dt xs (Some (cand_id x), ?sc x) = (Some (cand_id x), ?sc x)"
      by (rule choose_loop_keep)
    then show ?thesis using nb cx Cons.prems(2)
      by (simp add: choose_loop_step del: choose_loop.simps)
  next
    case False
    then have fx: "find (P (x # xs)) xs = Some c"
      using fb by simp
    then have cP: "P (x # xs) c" and cin: "c \<in> set xs"
      by (auto simp: find_Some_iff)
    have "find (P xs) xs = find (P (x # xs)) xs"
    proof (rule find_cong [OF refl])
      fix d assume d: "d \<in> set xs"
      show "P xs d = P (x # xs) d"
      proof
        assume p: "P xs d"
        have "\<not> is_bank_rut x \<longrightarrow> ?sc x \<le> ?sc d"
        proof
          assume nb: "\<not> is_bank_rut x"
          with False obtain e where e: "e \<in> set xs" "\<not> is_bank_rut e" "?sc x < ?sc e"
            by (auto simp: P_def)
          then have "?sc e \<le> ?sc d" using p by (simp add: P_def)
          then show "?sc x \<le> ?sc d" using e(3) by linarith
        qed
        with p show "P (x # xs) d" by (simp add: P_def)
      next
        assume "P (x # xs) d"
        then show "P xs d" by (simp add: P_def)
      qed
    qed
    then have fbx: "first_best text dt xs = Some c"
      using fx by (simp only: fbP)
    show ?thesis
    proof (cases "\<not> is_bank_rut x \<and> bs < ?sc x")
      case True
      then have "?sc x \<le> ?sc c" using cP by (simp add: P_def)
      moreover have "?sc x \<noteq> ?sc c"
      proof
        assume eq: "?sc x = ?sc c"
        have "P (x # xs) x" using cP True eq by (simp add: P_def)
        with False show False by simp
      qed
      ultimately have lt: "?sc x < ?sc c" by linarith
      from Cons.IH [OF fbx lt] True show ?thesis
        by (simp add: choose_loop_step del: choose_loop.simps)
    next
      case False
      from Cons.IH [OF fbx Cons.prems(2)] False show ?thesis
        by (auto simp: choose_loop_step simp del: choose_loop.simps)
    qed
  qed
qed





text \<open>
  Claim C5, as amended.  Among the candidates other than the bank's own RUT 97023000-9, the
  chooser returns the first one in list order that attains the highest score, provided that
  score is not negative; the list order is the order of \<^verbatim>\<open>find_all_ruts\<close> (pattern by
  pattern, and by text position only within one pattern).  For the empty candidate list it
  returns a pair of empty strings and does not raise.
\<close>

theorem choose_rut_first_best:
  assumes "first_best text dt ruts = Some c" and "0 \<le> cand_score text dt c"
  shows "choose_rut_for_doc text ruts dt = cand_id c \<and> choose_rut_for_doc text [] dt = ([], [])"
proof -
  have ne: "ruts \<noteq> []"
    using assms(1) by (auto simp: first_best_def)
  have "- 1 < cand_score text dt c" using assms(2) by simp
  from choose_loop_first_best [OF assms(1) this] ne show ?thesis
    by (simp add: choose_rut_for_doc_def)
qed


lemmas rx_eval = py_def re_search_def re_found_def re_finditer_def m_init_def m_span_def slice_def
  ch_def ci_def one_of_def lit_def liti_def star_def plus_def opt_def ws_def dg_def
  colon_ws_def num_chars_def dash_def dash_ws_def dv_char_def d09_def rut_groups_def n_mark_def
  labelled_patterns_def generic_dotted_def generic_plain_def operacion_producto_def
  group_text_def group_start_def context_of_def labelled_cand_def generic_cands_def
  find_all_ruts_def sus_pat_def banco_pat_def cl_rut_pat_def ci_rut_pat_def cedula_de_identidad_def
  rut_score_def sus_position_def cand_score_def
  isspace_cp_def re_digit_def lower_cp_def upper_cp_def str_upper_def re_word_def word_at_def next_cp_def
  Let_def

lemma find_all_ruts_tie:
  "find_all_ruts text_tie =
     [(41, py ''123456'', py ''7'', text_tie, 12), (5, py ''7654321'', py ''6'', text_tie, 10),
      (5, py ''7654321'', py ''6'', text_tie, 3)]"
  by (simp add: rx_eval text_tie_def)

lemma scores_tie:
  "cand_score text_tie (py ''CC'') (41, py ''123456'', py ''7'', text_tie, 12) = 12"
  "cand_score text_tie (py ''CC'') (5, py ''7654321'', py ''6'', text_tie, 10) = 12"
  "cand_score text_tie (py ''CC'') (5, py ''7654321'', py ''6'', text_tie, 3) = 5"
  by (simp_all add: rx_eval text_tie_def)

lemma find_all_ruts_bank_only:
  "find_all_ruts text_bank_only =
     [(12, py ''12345678'', py ''5'', text_bank_only, 10), (12, py ''12345678'', py ''5'', text_bank_only, 3)]"
  by (simp add: rx_eval text_bank_only_def)

lemma scores_bank_only:
  "cand_score text_bank_only (py ''CC'') (12, py ''12345678'', py ''5'', text_bank_only, 10) = - 38"
  "cand_score text_bank_only (py ''CC'') (12, py ''12345678'', py ''5'', text_bank_only, 3) = - 45"
  by (simp_all add: rx_eval text_bank_only_def)








lemma bank_rut_simps:
  "is_bank_rut (p, py ''97023000'', py ''9'', x, b)"
  "\<not> is_bank_rut (p, py ''123456'', py ''7'', x, b)"
  "\<not> is_bank_rut (p, py ''7654321'', py ''6'', x, b)"
  "\<not> is_bank_rut (p, py ''12345678'', py ''5'', x, b)"
  "\<not> is_bank_rut (p, py ''97004000'', py ''5'', x, b)"
  by (simp_all add: is_bank_rut_def cand_id_def py_def)

lemma cand_id_simp: "cand_id (p, r, d, x, b) = (r, d)"
  by (simp add: cand_id_def)

theorem choose_rut_first_best_witness:
  "first_best text_tie (py ''CC'') (find_all_ruts text_tie)
     = Some (41, py ''123456'', py ''7'', text_tie, 12)
   \<and> cand_score text_tie (py ''CC'') (41, py ''123456'', py ''7'', text_tie, 12) = 12
   \<and> choose_rut_for_doc text_tie (find_all_ruts text_tie) (py ''CC'') = (py ''123456'', py ''7'')"
proof -
  have fb: "first_best text_tie (py ''CC'') (find_all_ruts text_tie)
              = Some (41, py ''123456'', py ''7'', text_tie, 12)"
    by (simp add: first_best_def find_all_ruts_tie scores_tie bank_rut_simps)
  have sc: "0 \<le> cand_score text_tie (py ''CC'') (41, py ''123456'', py ''7'', text_tie, 12)"
    by (simp add: scores_tie)
  from choose_rut_first_best [OF fb sc] fb show ?thesis
    by (simp add: scores_tie cand_id_simp)
qed

text \<open>
  Claim C5 as stated fails on the page text \<open>text_tie\<close>: the candidates 123456-7 (position 41,
  from the pattern of weight 12) and 7654321-6 (position 5, from the pattern of weight 10)
  both score 12, and the chooser returns the one at the higher position, which comes first
  in the list.  On \<open>text_bank_only\<close> every candidate scores below zero and the chooser returns
  empty values although the list is not empty.
\<close>

theorem choose_rut_tie_takes_list_order:
  "find_all_ruts text_tie =
     [(41, py ''123456'', py ''7'', text_tie, 12), (5, py ''7654321'', py ''6'', text_tie, 10),
      (5, py ''7654321'', py ''6'', text_tie, 3)]
   \<and> cand_score text_tie (py ''CC'') (41, py ''123456'', py ''7'', text_tie, 12) = 12
   \<and> cand_score text_tie (py ''CC'') (5, py ''7654321'', py ''6'', text_tie, 10) = 12
   \<and> choose_rut_for_doc text_tie (find_all_ruts text_tie) (py ''CC'') = (py ''123456'', py ''7'')
   \<and> find_all_ruts text_bank_only =
     [(12, py ''12345678'', py ''5'', text_bank_only, 10),
      (12, py ''12345678'', py ''5'', text_bank_only, 3)]
   \<and> choose_rut_for_doc text_bank_only (find_all_ruts text_bank_only) (py ''CC'') = ([], [])"
  by (simp add: find_all_ruts_tie find_all_ruts_bank_only scores_tie scores_bank_only
      choose_rut_for_doc_def choose_loop_step bank_rut_simps cand_id_simp del: choose_loop.simps(2))



subsection \<open>Document classifier (C7)\<close>

lemmas doc_eval = pp_total_def cc_total_def count_present_def pp_indicators_def cc_indicators_def
  e_acute_def en_n_cuotas_def pagare_credito_consumo_def pagare_or_obligo_def nombre_del_deudor_def
  cedula_identidad_pat_def



lemma detect_document_type_pagare:
  "detect_document_type [py ''PAGARE''] = py ''PP''"
  by (simp add: detect_document_type_def doc_eval rx_eval)

subsection \<open>RUT normalization (C10)\<close>

lemma map_of_dict_set: "map_of (dict_set d k v) = (map_of d)(k \<mapsto> v)"
  by (induction d) auto

lemma dict_get_set: "dict_get (dict_set d k v) k' dflt = (if k' = k then v else dict_get d k' dflt)"
  by (simp add: dict_get_def map_of_dict_set)

lemma dict_get_bump:
  "dict_get (bump stats k) k' 0 = (if k' = k then dict_get stats k 0 + 1 else dict_get stats k' 0)"
  by (simp add: bump_def dict_get_set)

lemma int_each_total: "list_all re_digit s \<Longrightarrow> \<exists>ds. int_each s = Inr ds"
  by (induction s) (auto simp: re_digit_def py_int_digit_def)

lemma rut_calc_dv_total: "\<exists>calc. rut_calc_dv (rut_clean_digits rut) = Inr calc"
proof (cases "str_isdigit (rut_clean_digits rut)")
  case False
  then show ?thesis by (simp add: rut_calc_dv_def)
next
  case True
  define n where "n = rut_clean_digits rut"
  have "\<forall>c\<in>set n. isdigit_cp c \<and> (re_digit c \<or> c = 107 \<or> c = 75)"
    using True by (auto simp: n_def str_isdigit_def list_all_iff rut_clean_digits_def)
  then have "\<forall>c\<in>set n. re_digit c"
    by (auto simp: isdigit_cp_def re_digit_def)
  then have "list_all re_digit (rev n)"
    by (simp add: list_all_iff)
  then obtain ds where "int_each (rev n) = Inr ds"
    using int_each_total by blast
  then show ?thesis
    using True by (simp add: rut_calc_dv_def n_def Let_def)
qed

lemma normalize_rut_and_dv_result:
  "\<exists>calc. normalize_rut_and_dv L rut dv =
     Inr (rut_clean_digits rut, str_upper (clean_text_value L (Some dv)), calc,
          rut_clean_digits rut \<noteq> [] \<and> str_upper (clean_text_value L (Some dv)) \<noteq> []
            \<longrightarrow> calc = str_upper (clean_text_value L (Some dv)))"
proof -
  obtain c where c: "rut_calc_dv (rut_clean_digits rut) = Inr c"
    using rut_calc_dv_total by blast
  show ?thesis
    using c by (cases "rut_clean_digits rut = []")
      (auto simp: normalize_rut_and_dv_def Let_def simp del: clean_text_value.simps)
qed

text \<open>
  Claim C10.  \<^verbatim>\<open>normalize_rut_and_dv\<close> never raises and returns the cleaned RUT, the cleaned
  check digit, the computed one and the flag; the flag is true whenever the cleaned RUT or
  the cleaned check digit is empty.  The RUT/DV block of \<^verbatim>\<open>clean_and_normalize_row\<close> adds one to
  the counter \<^verbatim>\<open>rut_invalid\<close> exactly when both are non-empty and the computed check digit
  differs; when the cleaned check digit is empty the counter is unchanged and the row's DV
  stays empty, whatever \<^verbatim>\<open>strict_dv\<close> is.
\<close>

theorem rut_validation_vacuous_on_partial_input:
  "\<exists>calc ok row' stats'.
     normalize_rut_and_dv L (dict_get row (py ''RUT'') []) (dict_get row (py ''DV'') [])
       = Inr (rut_clean_digits (dict_get row (py ''RUT'') []),
              str_upper (clean_text_value L (Some (dict_get row (py ''DV'') []))), calc, ok)
     \<and> (rut_clean_digits (dict_get row (py ''RUT'') []) = []
          \<or> str_upper (clean_text_value L (Some (dict_get row (py ''DV'') []))) = [] \<longrightarrow> ok)
     \<and> rut_dv_block L strict_dv (row, stats) = Inr (row', stats')
     \<and> dict_get stats' (py ''rut_invalid'') 0 =
         dict_get stats (py ''rut_invalid'') 0
         + (if rut_clean_digits (dict_get row (py ''RUT'') []) \<noteq> []
              \<and> str_upper (clean_text_value L (Some (dict_get row (py ''DV'') []))) \<noteq> []
              \<and> calc \<noteq> str_upper (clean_text_value L (Some (dict_get row (py ''DV'') [])))
            then 1 else 0)
     \<and> (str_upper (clean_text_value L (Some (dict_get row (py ''DV'') []))) = []
          \<longrightarrow> dict_get row' (py ''DV'') [] = []
              \<and> dict_get stats' (py ''rut_invalid'') 0 = dict_get stats (py ''rut_invalid'') 0)"
proof -
  define rut_num where "rut_num = rut_clean_digits (dict_get row (py ''RUT'') [])"
  define dv_clean where "dv_clean = str_upper (clean_text_value L (Some (dict_get row (py ''DV'') [])))"
  obtain calc where n: "normalize_rut_and_dv L (dict_get row (py ''RUT'') []) (dict_get row (py ''DV'') [])
       = Inr (rut_num, dv_clean, calc, rut_num \<noteq> [] \<and> dv_clean \<noteq> [] \<longrightarrow> calc = dv_clean)"
    unfolding rut_num_def dv_clean_def using normalize_rut_and_dv_result by blast
  have k: "py ''normalized_rut'' \<noteq> py ''rut_invalid''" "py ''RUT'' \<noteq> py ''DV''"
    by (simp_all add: py_def)
  define stats1 where "stats1 = (if rut_num \<noteq> dict_get row (py ''RUT'') [] \<or> dv_clean \<noteq> dict_get row (py ''DV'') []
                            then bump stats (py ''normalized_rut'') else stats)"
  define row2 where "row2 = dict_set (dict_set row (py ''RUT'') rut_num) (py ''DV'') dv_clean"
  define bad where "bad \<longleftrightarrow> rut_num \<noteq> [] \<and> dv_clean \<noteq> [] \<and> calc \<noteq> dv_clean"
  define row' where "row' = (if bad \<and> strict_dv \<and> calc \<noteq> [] then dict_set row2 (py ''DV'') calc else row2)"
  define stats' where "stats' = (if bad then bump stats1 (py ''rut_invalid'') else stats1)"
  have s: "rut_dv_block L strict_dv (row, stats) = Inr (row', stats')"
    unfolding rut_dv_block_def
    by (simp add: n Let_def row'_def stats'_def bad_def row2_def stats1_def)
  have s1: "dict_get stats1 (py ''rut_invalid'') 0 = dict_get stats (py ''rut_invalid'') 0"
    using k by (simp add: stats1_def dict_get_bump)
  have i: "dict_get stats' (py ''rut_invalid'') 0 =
         dict_get stats (py ''rut_invalid'') 0
         + (if rut_num \<noteq> [] \<and> dv_clean \<noteq> [] \<and> calc \<noteq> dv_clean then 1 else 0)"
    using s1 by (simp add: stats'_def bad_def dict_get_bump)
  have d: "dv_clean = [] \<longrightarrow> dict_get row' (py ''DV'') [] = []"
    by (simp add: row'_def bad_def row2_def dict_get_set)
  show ?thesis
    using n s i d unfolding rut_num_def [symmetric] dv_clean_def [symmetric]
    by (intro exI [of _ calc] exI [of _ "rut_num \<noteq> [] \<and> dv_clean \<noteq> [] \<longrightarrow> calc = dv_clean"]
        exI [of _ row'] exI [of _ stats']) auto
qed




lemmas rut_eval = rut_dv_block_def normalize_rut_and_dv_def rut_clean_digits_def rut_calc_dv_def
  str_isdigit_def isdigit_cp_def re_digit_def py_int_digit_def weighted_total_def factors_def
  enumerate_eq_zip str_nat_digit str_upper_def upper_cp_def dict_get_def bump_def Let_def

theorem rut_validation_vacuous_on_partial_input_witness:
  "rut_dv_block fallback_libs True ([(py ''RUT'', py ''12.345.678''), (py ''DV'', py '' '')], [])
     = Inr ([(py ''RUT'', py ''12345678''), (py ''DV'', [])], [(py ''normalized_rut'', 1)])
   \<and> dict_get [(py ''normalized_rut'', 1)] (py ''rut_invalid'') 0 = (0 :: int)
   \<and> normalize_rut_and_dv fallback_libs (py ''12.345.678'') (py '' '')
     = Inr (py ''12345678'', [], py ''5'', True)"
proof -
  let ?row = "[(py ''RUT'', py ''12.345.678''), (py ''DV'', py '' '')]"
  have e: "rut_dv_block fallback_libs True (?row, [])
     = Inr ([(py ''RUT'', py ''12345678''), (py ''DV'', [])], [(py ''normalized_rut'', 1)])"
    by (simp add: rut_eval norm_eval)
  have n: "normalize_rut_and_dv fallback_libs (py ''12.345.678'') (py '' '')
     = Inr (py ''12345678'', [], py ''5'', True)"
    by (simp add: rut_eval norm_eval)
  have c: "str_upper (clean_text_value fallback_libs (Some (dict_get ?row (py ''DV'') []))) = []"
    by (simp add: rut_eval norm_eval)
  from rut_validation_vacuous_on_partial_input [of fallback_libs ?row True "[]"]
  obtain row' stats' where
    "rut_dv_block fallback_libs True (?row, []) = Inr (row', stats')"
    "dict_get stats' (py ''rut_invalid'') 0 = dict_get [] (py ''rut_invalid'') 0"
    using c by auto
  with e have "dict_get [(py ''normalized_rut'', 1)] (py ''rut_invalid'') 0 = (0 :: int)"
    by (simp add: dict_get_def)
  with e n show ?thesis by simp
qed

subsection \<open>Debug-trace merge (C9)\<close>

lemma mode_names_differ:
  "py ''only_blanks'' \<noteq> py ''prefer_debug''" "py ''none'' \<noteq> py ''only_blanks''"
  "py ''none'' \<noteq> py ''prefer_debug''"
  by (simp_all add: py_def)

lemma merge_field_other:
  "g \<noteq> f \<Longrightarrow> merge_field L mode cand f (row, sf) = (row', sf') \<Longrightarrow>
     map_of row' g = map_of row g \<and> dict_get sf' g 0 = dict_get sf g 0"
  by (auto simp: merge_field_def Let_def map_of_dict_set dict_get_bump split: if_splits
           simp del: clean_text_value.simps)

lemma merge_field_same:
  "merge_field L mode cand f (row, sf) = (row', sf') \<Longrightarrow>
     map_of row' f = (if fills L mode row cand f
                      then Some (clean_text_value L (Some (dict_get cand f []))) else map_of row f)
     \<and> dict_get sf' f 0 = dict_get sf f 0 + (if fills L mode row cand f then 1 else 0)"
  by (auto simp: merge_field_def fills_def Let_def map_of_dict_set dict_get_bump mode_names_differ
           split: if_splits simp del: clean_text_value.simps)

lemma fills_cong:
  "map_of row1 f = map_of row2 f \<Longrightarrow> fills L mode row1 cand f = fills L mode row2 cand f"
  by (simp add: fills_def dict_get_def del: clean_text_value.simps)

lemma fold_merge_field:
  assumes "distinct fs"
    and "fold (merge_field L mode cand) fs (row, sf) = (row', sf')"
  shows "map_of row' g =
           (if g \<in> set fs \<and> fills L mode row cand g
            then Some (clean_text_value L (Some (dict_get cand g []))) else map_of row g)
         \<and> dict_get sf' g 0 = dict_get sf g 0 + (if g \<in> set fs \<and> fills L mode row cand g then 1 else 0)"
  using assms
proof (induction fs arbitrary: row sf)
  case Nil
  then show ?case by simp
next
  case (Cons f fs)
  obtain row1 sf1 where m: "merge_field L mode cand f (row, sf) = (row1, sf1)"
    by (cases "merge_field L mode cand f (row, sf)") auto
  have d: "distinct fs" "f \<notin> set fs" using Cons.prems(1) by auto
  have r: "fold (merge_field L mode cand) fs (row1, sf1) = (row', sf')"
    using Cons.prems(2) m by simp
  note ih = Cons.IH [OF d(1) r]
  show ?case
  proof (cases "g = f")
    case True
    with d have "g \<notin> set fs" by simp
    with ih have "map_of row' g = map_of row1 g" "dict_get sf' g 0 = dict_get sf1 g 0"
      by simp_all
    with merge_field_same [OF m] True show ?thesis by simp
  next
    case False
    from merge_field_other [OF False m]
    have o: "map_of row1 g = map_of row g" "dict_get sf1 g 0 = dict_get sf g 0" by simp_all
    have "fills L mode row1 cand g = fills L mode row cand g"
      using o(1) by (rule fills_cong)
    with ih o False show ?thesis by simp
  qed
qed

lemma distinct_merge_pairs: "distinct merge_pairs"
  by (simp add: merge_pairs_def py_def)


text \<open>
  Claim C9, as amended.  Under mode \<^verbatim>\<open>none\<close>, or with an empty trace, the row and both
  counter dictionaries are returned unchanged; when no non-empty trace entry matches, the
  row is unchanged and \<^verbatim>\<open>debug_merge_misses\<close> grows by one.  On a match
  \<^verbatim>\<open>debug_merge_hits\<close> grows by one and, for each of the eleven fields of the merge table,
  the field takes the cleaned trace value and its fill count grows by one exactly when
  the policy fills it: under \<^verbatim>\<open>only_blanks\<close> when the cleaned current value is empty and the
  cleaned trace value is not, under \<^verbatim>\<open>prefer_debug\<close> when the cleaned trace value is not
  empty and differs from the cleaned current value.  Every other field of the row keeps
  its value under every policy.
\<close>

theorem merge_from_debug_policy:
  assumes "merge_from_debug L row debug_map mode stats_fill stats = (row', stats_fill', stats')"
  shows
    "(mode = py ''none'' \<or> debug_map = []
        \<longrightarrow> row' = row \<and> stats_fill' = stats_fill \<and> stats' = stats)
     \<and> (mode \<noteq> py ''none'' \<and> debug_map \<noteq> [] \<and> trace_entry debug_map row = None
        \<longrightarrow> row' = row \<and> stats_fill' = stats_fill
            \<and> stats' = bump stats (py ''debug_merge_misses''))
     \<and> (\<forall>cand. mode \<noteq> py ''none'' \<and> debug_map \<noteq> [] \<and> trace_entry debug_map row = Some cand
        \<longrightarrow> stats' = bump stats (py ''debug_merge_hits'')
            \<and> (\<forall>f. map_of row' f =
                       (if f \<in> set merge_pairs \<and> fills L mode row cand f
                        then Some (clean_text_value L (Some (dict_get cand f [])))
                        else map_of row f)
                   \<and> dict_get stats_fill' f 0 =
                       dict_get stats_fill f 0
                       + (if f \<in> set merge_pairs \<and> fills L mode row cand f then 1 else 0)))"
proof -
  have 1: "mode = py ''none'' \<or> debug_map = []
        \<longrightarrow> row' = row \<and> stats_fill' = stats_fill \<and> stats' = stats"
    using assms by (auto simp: merge_from_debug_def)
  have 2: "mode \<noteq> py ''none'' \<and> debug_map \<noteq> [] \<and> trace_entry debug_map row = None
        \<longrightarrow> row' = row \<and> stats_fill' = stats_fill
            \<and> stats' = bump stats (py ''debug_merge_misses'')"
    using assms
    by (auto simp: merge_from_debug_def trace_entry_def split: option.splits if_splits)
  have 3: "stats' = bump stats (py ''debug_merge_hits'')
            \<and> (\<forall>f. map_of row' f =
                       (if f \<in> set merge_pairs \<and> fills L mode row cand f
                        then Some (clean_text_value L (Some (dict_get cand f [])))
                        else map_of row f)
                   \<and> dict_get stats_fill' f 0 =
                       dict_get stats_fill f 0
                       + (if f \<in> set merge_pairs \<and> fills L mode row cand f then 1 else 0))"
    if h: "mode \<noteq> py ''none'' \<and> debug_map \<noteq> [] \<and> trace_entry debug_map row = Some cand"
    for cand
  proof -
    from h have c: "find_cand debug_map (key_opts row) None = Some cand" "cand \<noteq> []"
      by (auto simp: trace_entry_def split: option.splits if_splits)
    obtain r1 s1 where f: "fold (merge_field L mode cand) merge_pairs (row, stats_fill) = (r1, s1)"
      by (cases "fold (merge_field L mode cand) merge_pairs (row, stats_fill)") auto
    have e: "row' = r1" "stats_fill' = s1" "stats' = bump stats (py ''debug_merge_hits'')"
      using assms h c f by (simp_all add: merge_from_debug_def Let_def)
    show ?thesis
      using fold_merge_field [OF distinct_merge_pairs f] e by blast
  qed
  from 1 2 3 show ?thesis by blast
qed



lemmas merge_eval = merge_from_debug_def key_opts_def merge_pairs_def merge_field_def dict_get_def
  bump_def str_strip_chars_def Let_def

theorem merge_from_debug_policy_witness:
  "merge_from_debug fallback_libs
       [(py ''OPERACION'', py ''123''), (py ''NOMBRE'', py ''JUAN''), (py ''COMUNA'', [])]
       sample_trace (py ''only_blanks'') [] []
     = ([(py ''OPERACION'', py ''123''), (py ''NOMBRE'', py ''JUAN''), (py ''COMUNA'', py ''TEMUCO'')],
        [(py ''COMUNA'', 1)], [(py ''debug_merge_hits'', 1)])
   \<and> bump [] (py ''debug_merge_hits'') = [(py ''debug_merge_hits'', 1)]"
proof -
  have e: "merge_from_debug fallback_libs
       [(py ''OPERACION'', py ''123''), (py ''NOMBRE'', py ''JUAN''), (py ''COMUNA'', [])]
       sample_trace (py ''only_blanks'') [] []
     = ([(py ''OPERACION'', py ''123''), (py ''NOMBRE'', py ''JUAN''), (py ''COMUNA'', py ''TEMUCO'')],
        [(py ''COMUNA'', 1)], [(py ''debug_merge_hits'', 1)])"
    by (simp add: merge_eval sample_trace_def norm_eval)
  have t: "trace_entry sample_trace
             [(py ''OPERACION'', py ''123''), (py ''NOMBRE'', py ''JUAN''), (py ''COMUNA'', [])]
           = Some [(py ''OPERACION'', py ''123''), (py ''NOMBRE'', py ''PEDRO''),
                    (py ''COMUNA'', py ''TEMUCO''), (py ''TASA'', py ''2%'')]"
    by (simp add: trace_entry_def merge_eval sample_trace_def norm_eval)
  have n: "py ''only_blanks'' \<noteq> py ''none''" "sample_trace \<noteq> []"
    by (simp_all add: py_def sample_trace_def)
  from merge_from_debug_policy [OF e] t n
  have "[(py ''debug_merge_hits'', 1)] = bump [] (py ''debug_merge_hits'')"
    by blast
  with e show ?thesis by simp
qed

text \<open>
  Claim C9 as stated fails in two places.  Under \<^verbatim>\<open>only_blanks\<close> the field NOMBRE holding
  the non-empty value \<^verbatim>\<open>" "\<close> is overwritten by the trace value, because the value is
  cleaned before it is tested.  Under \<^verbatim>\<open>prefer_debug\<close> the field TASA keeps \<^verbatim>\<open>1%\<close> although the
  trace holds the different non-empty value \<^verbatim>\<open>2%\<close>, because TASA is not in the merge table.
\<close>

theorem merge_from_debug_edge_cases:
  "merge_from_debug fallback_libs
       [(py ''OPERACION'', py ''123''), (py ''NOMBRE'', py '' ''), (py ''COMUNA'', py ''TEMUCO''),
        (py ''TASA'', py ''1%'')]
       sample_trace (py ''only_blanks'') [] []
     = ([(py ''OPERACION'', py ''123''), (py ''NOMBRE'', py ''PEDRO''), (py ''COMUNA'', py ''TEMUCO''),
         (py ''TASA'', py ''1%'')],
        [(py ''NOMBRE'', 1)], [(py ''debug_merge_hits'', 1)])
   \<and> merge_from_debug fallback_libs
       [(py ''OPERACION'', py ''123''), (py ''NOMBRE'', py ''JUAN''), (py ''COMUNA'', py ''TEMUCO''),
        (py ''TASA'', py ''1%'')]
       sample_trace (py ''prefer_debug'') [] []
     = ([(py ''OPERACION'', py ''123''), (py ''NOMBRE'', py ''PEDRO''), (py ''COMUNA'', py ''TEMUCO''),
         (py ''TASA'', py ''1%'')],
        [(py ''NOMBRE'', 1)], [(py ''debug_merge_hits'', 1)])"
  by (simp add: merge_eval sample_trace_def norm_eval)

subsection \<open>Page OCR text extractor (C8)\<close>

lemmas ocr_eval = extract_text_from_image_def ocr_configs_def sample_env_def str_strip_def max_by_len_def
  isspace_cp_def py_def Let_def

text \<open>
  Claim C8 at a concrete engine.  Only the first configuration recognises text, the lines
  \<^verbatim>\<open>ab\<close> and \<^verbatim>\<open>cdef\<close>.  The longest result, which the code computes as \<^verbatim>\<open>best_text\<close>, is
  that text; the value returned is not: it is the set of all lines sorted by length, here
  \<^verbatim>\<open>cdef\<close> before \<^verbatim>\<open>ab\<close>.  \<^verbatim>\<open>best_text\<close> is never used.
\<close>

theorem extract_text_reorders_single_result:
  "collect_texts sample_env () ocr_configs = [py ''ab'' @ [10] @ py ''cdef'']
   \<and> max_by_len (collect_texts sample_env () ocr_configs) = py ''ab'' @ [10] @ py ''cdef''
   \<and> extract_text_from_image sample_env (py ''page_01.png'') = Inr (py ''cdef'' @ [10] @ py ''ab'')"
  by (simp add: ocr_eval)

lemma extract_text_all_fail:
  assumes "image_open E p = Inr img"
    and "\<forall>c\<in>set ocr_configs. case image_to_string E img c of Inl e \<Rightarrow> True | Inr t \<Rightarrow> str_strip t = []"
  shows "extract_text_from_image E p = Inr []"
proof -
  have "collect_texts E img cs = []"
    if "\<forall>c\<in>set cs. case image_to_string E img c of Inl e \<Rightarrow> True | Inr t \<Rightarrow> str_strip t = []"
    for cs
    using that by (induction cs) (auto split: sum.splits)
  then show ?thesis
    using assms by (simp add: extract_text_from_image_def)
qed

subsection \<open>Row assembly and batch orchestration (C1, C2)\<close>

text \<open>
  Claim C2.  Whatever the page texts (also none at all) and whatever the matchers return,
  the rows assembled on the PP path and on the CC path carry exactly the keys of
  \<^verbatim>\<open>UNIFIED_COLUMNS\<close>, in that order and each once, and the empty-row fallback of the CSV
  generator carries exactly the keys of its header list: no key of the module's column
  set is missing.  Every value is a string by the type of the rows.
\<close>

theorem assembled_rows_have_all_keys:
  "map fst (process_pagare X text_pages source_name) = UNIFIED_COLUMNS
   \<and> map fst (process_credito_consumo X text_pages source_name) = UNIFIED_COLUMNS
   \<and> map fst (process_document_unified X text_pages doc_type source_name) = UNIFIED_COLUMNS
   \<and> map fst (create_empty_row pdf_name) = csv_headers
   \<and> distinct UNIFIED_COLUMNS \<and> distinct csv_headers"
proof -
  have 1: "map fst (process_pagare X text_pages source_name) = UNIFIED_COLUMNS"
    by (simp add: process_pagare_def UNIFIED_COLUMNS_def Let_def)
  have 2: "map fst (process_credito_consumo X text_pages source_name) = UNIFIED_COLUMNS"
    by (simp add: process_credito_consumo_def UNIFIED_COLUMNS_def Let_def)
  have 3: "map fst (create_empty_row pdf_name) = csv_headers"
    by (simp add: create_empty_row_def csv_headers_def)
  have 4: "distinct UNIFIED_COLUMNS" "distinct csv_headers"
    by (simp_all add: UNIFIED_COLUMNS_def csv_headers_def py_def)
  from 1 2 3 4 show ?thesis
    by (simp add: process_document_unified_def)
qed


lemma length_process_each: "length (process_each E pdfs) = length pdfs"
  by (induction pdfs) (auto split: sum.splits)

lemma process_each_failed:
  "i < length pdfs \<Longrightarrow> pdf_to_images E (pdfs ! i) = [] \<Longrightarrow>
     process_each E pdfs ! i = create_empty_row (pdfs ! i)"
proof (induction pdfs arbitrary: i)
  case Nil
  then show ?case by simp
next
  case (Cons p ps)
  show ?case
  proof (cases i)
    case 0
    with Cons.prems show ?thesis
      by (simp add: process_pdf_def split: sum.splits)
  next
    case (Suc j)
    with Cons show ?thesis
      by (simp split: sum.splits)
  qed
qed

lemma main_loop_rows:
  "main_loop U pdfs acc = acc @ main_loop U pdfs []"
proof (induction pdfs arbitrary: acc)
  case Nil
  show ?case by simp
next
  case (Cons p ps)
  have a: "main_loop U ps (acc @ [r]) = acc @ [r] @ main_loop U ps []" for r
    using Cons [of "acc @ [r]"] by simp
  have b: "main_loop U ps [r] = [r] @ main_loop U ps []" for r
    using Cons [of "[r]"] by simp
  show ?case
    using Cons [of acc] a b by (auto simp: Let_def split: sum.splits)
qed

lemma length_main_loop:
  "length (main_loop U pdfs []) = length (filter (yields_row U) pdfs)"
proof (induction pdfs)
  case Nil
  show ?case by simp
next
  case (Cons p ps)
  have b: "main_loop U ps [r] = [r] @ main_loop U ps []" for r
    by (rule main_loop_rows)
  show ?case
    using Cons b by (auto simp: Let_def yields_row_def split: sum.splits)
qed

text \<open>
  Claim C1, as amended.  The CSV generator's batch (\<^verbatim>\<open>process_all_pdfs\<close>) returns exactly one
  row per input PDF, in order; the row of a PDF whose rasterisation fails is the empty row,
  whose operation id is the file name without \<^verbatim>\<open>.pdf\<close> and whose extracted fields are empty.
  The unified module's \<^verbatim>\<open>main\<close> returns one row for each PDF that rasterises to at least
  one image and is processed without an exception, and no row for the others.
\<close>

theorem batch_rows_per_document:
  "(pdfs \<noteq> [] \<longrightarrow>
      (\<exists>rows. process_all_pdfs E pdfs = Inr rows \<and> length rows = length pdfs
         \<and> (\<forall>i<length pdfs. pdf_to_images E (pdfs ! i) = []
               \<longrightarrow> rows ! i = create_empty_row (pdfs ! i))))
   \<and> dict_get (create_empty_row name) (py ''OPERACION'') [] = str_replace (py ''.pdf'') [] name
   \<and> dict_get (create_empty_row name) (py ''RUT'') [] = []
   \<and> dict_get (create_empty_row name) (py ''NOMBRE'') [] = []
   \<and> length (main_rows U pdfs) = length (filter (yields_row U) pdfs)
   \<and> length (main_rows U pdfs) \<le> length pdfs"
proof -
  have 1: "pdfs \<noteq> [] \<longrightarrow>
      (\<exists>rows. process_all_pdfs E pdfs = Inr rows \<and> length rows = length pdfs
         \<and> (\<forall>i<length pdfs. pdf_to_images E (pdfs ! i) = []
               \<longrightarrow> rows ! i = create_empty_row (pdfs ! i)))"
    by (simp add: process_all_pdfs_def length_process_each process_each_failed)
  have k: "py ''RUT'' \<noteq> py ''OPERACION''" "py ''NOMBRE'' \<noteq> py ''OPERACION''"
      "py ''NOMBRE'' \<noteq> py ''RUT''" "py ''NOMBRE'' \<noteq> py ''DV''"
    by (simp_all add: py_def)
  have 2: "dict_get (create_empty_row name) (py ''OPERACION'') [] = str_replace (py ''.pdf'') [] name"
    "dict_get (create_empty_row name) (py ''RUT'') [] = []"
    "dict_get (create_empty_row name) (py ''NOMBRE'') [] = []"
    using k by (simp_all add: create_empty_row_def dict_get_def)
  have 3: "length (main_rows U pdfs) = length (filter (yields_row U) pdfs)"
    by (simp add: main_rows_def length_main_loop)
  then have 4: "length (main_rows U pdfs) \<le> length pdfs"
    by simp
  from 1 2 3 4 show ?thesis by blast
qed




lemma find_all_ruts_empty: "find_all_ruts [] = []"
  by (simp add: rx_eval)

lemma detect_document_type_blank: "detect_document_type [[]] = py ''CC''"
  by (simp add: detect_document_type_def doc_eval rx_eval)

lemma blank_page_row:
  "process_document_unified blank_extractors [[]] (py ''CC'') name =
     [(py ''OPERACION_1'', filter re_digit name),
      (py ''RUT'', []), (py ''DV'', []), (py ''NOMBRE'', []), (py ''DIRECCION'', []),
      (py ''COMUNA'', []), (py ''FECHA_SUSCRIPCION_1'', []), (py ''MONTO_CREDITO_1'', []),
      (py ''CUOTAS_1'', []), (py ''TASA_1'', []), (py ''MONTO_CUOTA_1'', []),
      (py ''MONTO_ULTIMA_CUOTA_1'', []), (py ''FECHA_VENCIMIENTO_1_CUOTA_1'', []),
      (py ''FECHA_VENCIMIENTO_ULTIMA_CUOTA_1'', []), (py ''CUOTA_MOROSA_1'', []),
      (py ''FECHA_CUOTA_MOROSA_1'', []), (py ''CAPITAL_1'', []), (py ''EXHORTO'', py ''TEMUCO''),
      (py ''SUCURSAL'', py ''SANTIAGO''), (py ''PRODUCTO'', py ''CC''),
      (py ''NOMBRE_APODERADO'', []), (py ''NOMBRE_APODERADO_2'', [])]"
proof -
  have n: "py ''CC'' \<noteq> py ''PP''" by (simp add: py_def)
  have k: "dict_get (cc_page_row blank_extractors []) key [] = []" for key
    by (simp add: cc_page_row_def blank_extractors_def page_rut_def find_all_ruts_empty
        dict_get_def Let_def)
  show ?thesis
    using n
    by (simp add: process_document_unified_def process_credito_consumo_def best_row_def k py_or_def
        Let_def)
      (simp add: blank_extractors_def)
qed

text \<open>
  Claim C1 as stated fails for the unified module's \<^verbatim>\<open>main\<close>: of three PDFs, the second of
  which cannot be rasterised, only two rows reach the output table; the second document
  is skipped.
\<close>

theorem main_drops_failed_document:
  "length three_pdfs = 3
   \<and> u_convert sample_unified (py ''860419.pdf'') = []
   \<and> map (\<lambda>r. dict_get r (py ''OPERACION_1'') []) (main_rows sample_unified three_pdfs)
       = [py ''860418'', py ''860420'']"
proof -
  have p: "py ''860418.pdf'' \<noteq> py ''860419.pdf''" "py ''860420.pdf'' \<noteq> py ''860419.pdf''"
    by (simp_all add: py_def)
  have d: "filter re_digit (py ''860418.pdf'') = py ''860418''"
    "filter re_digit (py ''860420.pdf'') = py ''860420''"
    by (simp_all add: py_def re_digit_def)
  show ?thesis
    using p d
    by (simp add: three_pdfs_def main_rows_def sample_unified_def detect_document_type_blank
        blank_page_row dict_get_def Let_def)
qed

theorem batch_rows_per_document_witness:
  "process_all_pdfs sample_csv three_pdfs =
     Inr [[(py ''OPERACION'', py ''860418''), (py ''NOMBRE'', py ''AB'')],
          create_empty_row (py ''860419.pdf''),
          [(py ''OPERACION'', py ''860420''), (py ''NOMBRE'', py ''AB'')]]
   \<and> pdf_to_images sample_csv (three_pdfs ! 1) = []
   \<and> dict_get (create_empty_row (py ''860419.pdf'')) (py ''OPERACION'') [] = py ''860419''
   \<and> length (main_rows sample_unified three_pdfs) = 2"
proof -
  have p: "py ''860418.pdf'' \<noteq> py ''860419.pdf''" "py ''860420.pdf'' \<noteq> py ''860419.pdf''"
    by (simp_all add: py_def)
  have o: "extract_text_from_image sample_env (py ''page_01.png'') = Inr (py ''cdef'' @ [10] @ py ''ab'')"
    by (simp add: ocr_eval)
  have r: "str_replace (py ''.pdf'') [] (py ''860418.pdf'') = py ''860418''"
    "str_replace (py ''.pdf'') [] (py ''860419.pdf'') = py ''860419''"
    "str_replace (py ''.pdf'') [] (py ''860420.pdf'') = py ''860420''"
    by (simp_all add: str_replace_def py_def)
  have e: "process_all_pdfs sample_csv three_pdfs =
     Inr [[(py ''OPERACION'', py ''860418''), (py ''NOMBRE'', py ''AB'')],
          create_empty_row (py ''860419.pdf''),
          [(py ''OPERACION'', py ''860420''), (py ''NOMBRE'', py ''AB'')]]"
    using p o r
    by (simp add: process_all_pdfs_def three_pdfs_def process_pdf_def pdf_to_images_def
        sample_csv_def Let_def)
  have f: "pdf_to_images sample_csv (three_pdfs ! 1) = []"
    by (simp add: three_pdfs_def pdf_to_images_def sample_csv_def)
  have y: "filter (yields_row sample_unified) three_pdfs = [py ''860418.pdf'', py ''860420.pdf'']"
    using p by (simp add: three_pdfs_def yields_row_def sample_unified_def)
  from batch_rows_per_document [of three_pdfs sample_csv "py ''860419.pdf''" sample_unified] y r
  have "dict_get (create_empty_row (py ''860419.pdf'')) (py ''OPERACION'') [] = py ''860419''"
    and "length (main_rows sample_unified three_pdfs) = 2"
    by simp_all
  with e f show ?thesis by simp
qed

end
